(* ===== verification/JS_Base.thy ===== *)
theory JS_Base
  imports Main "HOL-Library.Sublist"
begin

text \<open>
  Prelude of the FocusFlow development: the JavaScript string primitives the content
  script relies on, the values the \<open>chrome.storage\<close> area holds, and the lemma
  collections the component theories share.

  A JavaScript string is a sequence of UTF-16 code units; it is modelled as a list of
  \<open>nat\<close> (\<open>jstr\<close>), so that \<open>length\<close> counts code units as \<open>String.length\<close>
  does and the \<open>u\<close>-flagged regular expression of the classifier can decode surrogate
  pairs. \<open>js\<close> turns an ASCII literal of the source into such a string.
  \<^item> \<open>js_lower\<close> is \<open>String.prototype.toLowerCase\<close> on the Basic Latin and Latin-1
    letters (the case mappings of other scripts are not modelled: such code units are
    left unchanged);
  \<^item> \<open>js_trim\<close> is \<open>String.prototype.trim\<close>, with the full set of WhiteSpace and
    LineTerminator code units of ECMA-262;
  \<^item> \<open>str_includes s p\<close> is \<open>s.includes(p)\<close>: true when \<open>p\<close> occurs as a contiguous
    part of \<open>s\<close>, in particular always when \<open>p\<close> is empty;
  \<^item> \<open>norm\<close> is the helper \<open>norm\<close> of src/content.js.
\<close>

named_theorems js_simps "evaluation rules for the JavaScript string model"
named_theorems dom_simps "evaluation rules for the document model"

type_synonym jstr = "nat list"

definition js :: "string \<Rightarrow> jstr" where
  "js s = map of_char s"

subsection \<open>Case folding and whitespace\<close>

definition js_lower_unit :: "nat \<Rightarrow> nat" where
  "js_lower_unit c =
     (if 65 \<le> c \<and> c \<le> 90 then c + 32
      else if 192 \<le> c \<and> c \<le> 222 \<and> c \<noteq> 215 then c + 32
      else c)"

definition js_lower :: "jstr \<Rightarrow> jstr" where
  "js_lower s = map js_lower_unit s"

definition js_ws :: "nat \<Rightarrow> bool" where
  "js_ws c \<longleftrightarrow>
     c \<in> {9, 10, 11, 12, 13, 32, 160, 5760, 8232, 8233, 8239, 8287, 12288, 65279}
     \<or> (8192 \<le> c \<and> c \<le> 8202)"

definition js_trim :: "jstr \<Rightarrow> jstr" where
  "js_trim s = rev (dropWhile js_ws (rev (dropWhile js_ws s)))"

text \<open>\<open>norm(s)\<close> of src/content.js: \<open>String(s).toLowerCase().trim()\<close>.\<close>

definition norm :: "jstr \<Rightarrow> jstr" where
  "norm s = js_trim (js_lower s)"

subsection \<open>Substring search\<close>

fun str_includes :: "jstr \<Rightarrow> jstr \<Rightarrow> bool" where
  "str_includes [] p = (p = [])"
| "str_includes (c # s) p = (prefix p (c # s) \<or> str_includes s p)"

subsection \<open>UTF-16 decoding\<close>

definition is_high_surrogate :: "nat \<Rightarrow> bool" where
  "is_high_surrogate u \<longleftrightarrow> 55296 \<le> u \<and> u \<le> 56319"

definition is_low_surrogate :: "nat \<Rightarrow> bool" where
  "is_low_surrogate u \<longleftrightarrow> 56320 \<le> u \<and> u \<le> 57343"

text \<open>
  The code points of a string, as a \<open>u\<close>-flagged regular expression and
  \<open>for \<dots> of\<close> see them: a high surrogate followed by a low one is one code point, any
  other code unit (a lone surrogate included) is a code point of its own. Each code
  point is returned with the code units it is made of.
\<close>

fun utf16_split :: "jstr \<Rightarrow> jstr list" where
  "utf16_split (h # l # r) =
     (if is_high_surrogate h \<and> is_low_surrogate l then [h, l] # utf16_split r
      else [h] # utf16_split (l # r))"
| "utf16_split [u] = [[u]]"
| "utf16_split [] = []"

fun code_point :: "jstr \<Rightarrow> nat" where
  "code_point [h, l] = 65536 + (h - 55296) * 1024 + (l - 56320)"
| "code_point [u] = u"
| "code_point _ = 0"

definition code_points :: "jstr \<Rightarrow> nat list" where
  "code_points s = map code_point (utf16_split s)"

subsection \<open>Values of the storage area\<close>

text \<open>
  The values the extension keeps in \<open>chrome.storage.local\<close>: booleans, strings and
  arrays of strings (every writer of src/ stores one of these). A missing key reads as
  \<open>undefined\<close>, which is \<open>None\<close> of a lookup.
\<close>

datatype sval = SBool bool | SStr jstr | SList "jstr list"

type_synonym store = "string \<rightharpoonup> sval"

text \<open>JavaScript truthiness of a value read from the store (\<open>undefined\<close> is falsy).\<close>

fun truthy :: "sval option \<Rightarrow> bool" where
  "truthy None = False"
| "truthy (Some (SBool b)) = b"
| "truthy (Some (SStr s)) = (s \<noteq> [])"
| "truthy (Some (SList xs)) = True"

subsection \<open>Messages between the popup and the content script\<close>

text \<open>
  The \<open>type\<close> of a \<open>chrome.tabs.sendMessage\<close> payload (the only field the content
  script looks at), and the tabs a broadcast is sent to: \<open>chrome.tabs.query({})\<close>
  (every tab) or \<open>chrome.tabs.query({url: "*://*.youtube.com/*"})\<close>.
\<close>

datatype msg =
    MsgEnabled \<comment> \<open>\<open>focusflow:enabled\<close>\<close>
  | MsgDisabled \<comment> \<open>\<open>focusflow:disabled\<close>\<close>
  | MsgUpdateShortsBlock \<comment> \<open>\<open>focusflow:update_shorts_block\<close>\<close>
  | MsgShortsToggle bool \<comment> \<open>\<open>focusflow:shorts_toggle\<close> with \<open>enabled\<close>\<close>

datatype target = AllTabs | YouTubeTabs

subsection \<open>Lemmas on the string model\<close>

lemma str_includes_iff_sublist [js_simps]: "str_includes s p \<longleftrightarrow> sublist p s"
  by (induction s) (auto simp: sublist_Cons_right)

lemma str_includes_Nil [simp]: "str_includes s []"
  by (simp add: str_includes_iff_sublist)

lemma str_includes_prefix [intro]: "str_includes (p @ s) p"
  by (simp add: str_includes_iff_sublist)

lemma str_includes_suffix [intro]: "str_includes (s @ p) p"
  by (simp add: str_includes_iff_sublist)

lemma str_includes_trans:
  "str_includes s p \<Longrightarrow> str_includes p q \<Longrightarrow> str_includes s q"
  by (auto simp: str_includes_iff_sublist intro: sublist_order.order_trans)

lemma str_includes_length: "str_includes s p \<Longrightarrow> length p \<le> length s"
  by (auto simp: str_includes_iff_sublist dest: sublist_length_le)

lemma js_lower_unit_idem [simp]: "js_lower_unit (js_lower_unit c) = js_lower_unit c"
  by (simp add: js_lower_unit_def)

lemma js_ws_lower_unit [simp]: "js_ws (js_lower_unit c) = js_ws c"
  by (auto simp: js_lower_unit_def js_ws_def)

lemma js_lower_idem [simp]: "js_lower (js_lower s) = js_lower s"
  by (simp add: js_lower_def)

lemma js_lower_Nil [simp]: "js_lower [] = []"
  by (simp add: js_lower_def)

lemma length_js_lower [simp]: "length (js_lower s) = length s"
  by (simp add: js_lower_def)

lemma dropWhile_map_lower:
  "dropWhile js_ws (map js_lower_unit s) = map js_lower_unit (dropWhile js_ws s)"
  by (induction s) auto

lemma js_lower_trim: "js_lower (js_trim s) = js_trim (js_lower s)"
  by (simp add: js_lower_def js_trim_def dropWhile_map_lower rev_map)

lemma dropWhile_idem: "dropWhile P (dropWhile P s) = dropWhile P s"
  by (induction s) auto

lemma dropWhile_hd_not: "dropWhile P xs = [] \<or> \<not> P (hd (dropWhile P xs))"
  by (metis dropWhile_eq_Nil_conv hd_dropWhile)

lemma js_trim_idem [simp]: "js_trim (js_trim s) = js_trim s"
proof -
  define a where "a = dropWhile js_ws s"
  define b where "b = dropWhile js_ws (rev a)"
  obtain p where p: "rev a = p @ b"
    unfolding b_def by (metis takeWhile_dropWhile_id)
  have hb: "dropWhile js_ws b = b"
    using dropWhile_hd_not [of js_ws "rev a"] by (simp add: b_def dropWhile_eq_self_iff)
  have "dropWhile js_ws (rev b) = rev b"
  proof (cases b)
    case Nil
    then show ?thesis by simp
  next
    case (Cons c r)
    from p have "a = rev b @ rev p" by (metis rev_append rev_rev_ident)
    then have "hd (rev b) = hd a" using Cons by (simp add: hd_append)
    moreover have "a \<noteq> []" using \<open>a = rev b @ rev p\<close> Cons by simp
    ultimately have "\<not> js_ws (hd (rev b))"
      using dropWhile_hd_not [of js_ws s] by (metis a_def)
    then show ?thesis by (simp add: dropWhile_eq_self_iff)
  qed
  then show ?thesis by (simp add: js_trim_def a_def [symmetric] b_def [symmetric] hb)
qed

lemma norm_idem [simp]: "norm (norm s) = norm s"
  by (simp add: norm_def js_lower_trim)

lemma js_lower_norm [simp]: "js_lower (norm s) = norm s"
  by (simp add: norm_def js_lower_trim)

lemma js_trim_Nil [simp]: "js_trim [] = []"
  by (simp add: js_trim_def)

lemma norm_Nil [simp]: "norm [] = []"
  by (simp add: norm_def)

lemma js_Nil [simp]: "js [] = []"
  by (simp add: js_def)

lemma length_js [simp]: "length (js s) = length s"
  by (simp add: js_def)

lemma utf16_split_Nil_iff [simp]: "utf16_split s = [] \<longleftrightarrow> s = []"
  by (induction s rule: utf16_split.induct) auto

lemma concat_utf16_split [simp]: "concat (utf16_split s) = s"
  by (induction s rule: utf16_split.induct) auto

lemma set_js_trim: "set (js_trim s) \<subseteq> set s"
  by (auto simp: js_trim_def dest!: set_dropWhileD)

lemma js_trim_hd_last:
  assumes "js_trim s \<noteq> []"
  shows "\<not> js_ws (hd (js_trim s)) \<and> \<not> js_ws (last (js_trim s))"
proof -
  define a where "a = dropWhile js_ws s"
  define b where "b = dropWhile js_ws (rev a)"
  obtain p where p: "rev a = p @ b"
    unfolding b_def by (metis takeWhile_dropWhile_id)
  have t: "js_trim s = rev b" by (simp add: js_trim_def a_def b_def)
  with assms have bne: "b \<noteq> []" by simp
  then have ane: "a \<noteq> []" using p by auto
  have "\<not> js_ws (hd b)" using bne hd_dropWhile [of js_ws "rev a"] by (simp add: b_def)
  moreover have "last b = hd a"
    using p bne ane by (metis last_appendR last_rev)
  moreover have "\<not> js_ws (hd a)" using ane hd_dropWhile [of js_ws s] by (simp add: a_def)
  ultimately show ?thesis using bne by (simp add: t hd_rev last_rev)
qed

lemma js_trim_id:
  assumes "s = [] \<or> (\<not> js_ws (hd s) \<and> \<not> js_ws (last s))"
  shows "js_trim s = s"
proof (cases "s = []")
  case False
  with assms have "dropWhile js_ws s = s" and "dropWhile js_ws (rev s) = rev s"
    by (simp_all add: dropWhile_eq_self_iff hd_rev)
  then show ?thesis by (simp add: js_trim_def)
qed simp

lemma js_trim_Cons_ws: "js_ws c \<Longrightarrow> js_trim (c # x) = js_trim x"
  by (simp add: js_trim_def)

end
