(* ===== verification/Dom.thy ===== *)
theory Dom
  imports JS_Base
begin

text \<open>
  The part of the YouTube page the content script reads and writes, and the DOM effects
  of src/content.js lines 105--152.

  A listing or shelf element is a \<open>node\<close>: its identity \<open>nid\<close> (the object reference
  of the source), its lower-cased tag name, the answers of \<open>node.querySelector\<close> for
  the selectors the script asks (the first matching descendant, with its
  \<open>innerText\<close> and \<open>content\<close> attribute), the \<open>href\<close> of its \<open>a#thumbnail\<close>, its
  own \<open>innerText\<close>, its \<open>style.display\<close> and whether \<open>data-focusflow-hidden\<close> is set.
  The \<open>page\<close> holds the nodes in document order, \<open>location.pathname\<close>, the answers of
  \<open>document.querySelector\<close>, the first \<open>video\<close> element and whether the overlay
  \<open>#focusflow-block-overlay\<close> is mounted. The text of a node does not depend on its
  visibility in this model. Since the overlay is recorded as a flag, the existence guard
  of \<open>showBlockedOverlay\<close> (line 119) has no observable effect here, and no property
  is stated about it; the \<open>reason\<close> argument is ignored, as in the source.

  \<open>hideNode\<close>, \<open>showNode\<close>, \<open>showBlockedOverlay\<close>, \<open>removeBlockedOverlay\<close>,
  \<open>pause_video\<close> and the "Allow once" click (\<open>allow_once\<close>) are functions on nodes and
  pages; \<open>upd_node\<close> applies an effect to the node with a given identity, and
  \<open>restore_all\<close> is the restore path of lines 166--167 (and 264--265).
  The lemmas give the algebra of these effects (idempotence, what each leaves
  unchanged) and the marker invariant \<open>marker_inv\<close>: a node carrying the marker is
  hidden.
\<close>

datatype vstate = Playing | Paused

record elem =
  e_text :: jstr
  e_content :: "jstr option"

record node =
  nid :: nat
  tag :: jstr
  sel :: "(string \<times> elem) list"
  thumb_href :: "jstr option"
  inner :: jstr
  display :: jstr
  ff_hidden :: bool

record page =
  nodes :: "node list"
  pathname :: jstr
  dsel :: "(string \<times> elem) list"
  video :: "vstate option"
  overlay :: bool

definition node_query :: "node \<Rightarrow> string \<Rightarrow> elem option" where
  "node_query n s = map_of (sel n) s"

definition doc_query :: "page \<Rightarrow> string \<Rightarrow> elem option" where
  "doc_query p s = map_of (dsel p) s"

subsection \<open>Effects on one node\<close>

definition hideNode :: "node \<Rightarrow> node" where
  "hideNode n = n\<lparr>ff_hidden := True, display := js ''none''\<rparr>"

definition showNode :: "node \<Rightarrow> node" where
  "showNode n = (if ff_hidden n then n\<lparr>display := [], ff_hidden := False\<rparr> else n)"

definition upd_node :: "nat \<Rightarrow> (node \<Rightarrow> node) \<Rightarrow> page \<Rightarrow> page" where
  "upd_node i f p = p\<lparr>nodes := map (\<lambda>n. if nid n = i then f n else n) (nodes p)\<rparr>"

subsection \<open>Overlay and video\<close>

text \<open>
  \<open>showBlockedOverlay(reason)\<close> does nothing when the overlay is mounted; otherwise it
  mounts it. The \<open>reason\<close> argument is never used by the source (the overlay's text is
  fixed), so it plays no part in the result.
\<close>

definition showBlockedOverlay :: "jstr \<Rightarrow> page \<Rightarrow> page" where
  "showBlockedOverlay reason p = (if overlay p then p else p\<lparr>overlay := True\<rparr>)"

definition removeBlockedOverlay :: "page \<Rightarrow> page" where
  "removeBlockedOverlay p = (if overlay p then p\<lparr>overlay := False\<rparr> else p)"

definition pause_video :: "page \<Rightarrow> page" where
  "pause_video p = p\<lparr>video := map_option (\<lambda>_. Paused) (video p)\<rparr>"

text \<open>The click handler of the "Allow once" button (lines 144--147).\<close>

definition allow_once :: "page \<Rightarrow> page" where
  "allow_once p =
     (if overlay p then p\<lparr>overlay := False, video := map_option (\<lambda>_. Playing) (video p)\<rparr> else p)"

subsection \<open>Restoring every marked node\<close>

definition marked_ids :: "page \<Rightarrow> nat list" where
  "marked_ids p = map nid (filter ff_hidden (nodes p))"

definition restore_all :: "page \<Rightarrow> page" where
  "restore_all p = removeBlockedOverlay (fold (\<lambda>i. upd_node i showNode) (marked_ids p) p)"

text \<open>The identities of the nodes that satisfy a test, in document order: the result of a
  \<open>querySelectorAll\<close>.\<close>

definition ids_where :: "page \<Rightarrow> (node \<Rightarrow> bool) \<Rightarrow> nat list" where
  "ids_where p P = map nid (filter P (nodes p))"

subsection \<open>Well-formedness and the marker invariant\<close>

definition wf_page :: "page \<Rightarrow> bool" where
  "wf_page p \<longleftrightarrow> distinct (map nid (nodes p))"

definition marker_ok :: "node \<Rightarrow> bool" where
  "marker_ok n \<longleftrightarrow> (ff_hidden n \<longrightarrow> display n = js ''none'')"

definition marker_inv :: "page \<Rightarrow> bool" where
  "marker_inv p \<longleftrightarrow> (\<forall>n \<in> set (nodes p). marker_ok n)"

subsection \<open>Lemmas\<close>

lemma hideNode_idem [simp]: "hideNode (hideNode n) = hideNode n"
  by (simp add: hideNode_def)

lemma showNode_idem [simp]: "showNode (showNode n) = showNode n"
  by (simp add: showNode_def)

lemma hideNode_showNode [simp]: "hideNode (showNode n) = hideNode n"
  by (simp add: hideNode_def showNode_def)

lemma showNode_hideNode [simp]: "showNode (hideNode n) = n\<lparr>display := [], ff_hidden := False\<rparr>"
  by (simp add: hideNode_def showNode_def)

text \<open>Neither effect touches what the classifier reads.\<close>

lemma hideNode_frame [simp]:
  "nid (hideNode n) = nid n" "tag (hideNode n) = tag n" "sel (hideNode n) = sel n"
  "thumb_href (hideNode n) = thumb_href n" "inner (hideNode n) = inner n"
  "ff_hidden (hideNode n)" "display (hideNode n) = js ''none''"
  by (simp_all add: hideNode_def)

lemma showNode_frame [simp]:
  "nid (showNode n) = nid n" "tag (showNode n) = tag n" "sel (showNode n) = sel n"
  "thumb_href (showNode n) = thumb_href n" "inner (showNode n) = inner n"
  "\<not> ff_hidden (showNode n)"
  by (simp_all add: showNode_def)

lemma node_query_hideNode [simp]: "node_query (hideNode n) = node_query n"
  by (rule ext) (simp add: node_query_def)

lemma node_query_showNode [simp]: "node_query (showNode n) = node_query n"
  by (rule ext) (simp add: node_query_def)

lemma display_showNode: "display (showNode n) = (if ff_hidden n then [] else display n)"
  by (simp add: showNode_def)

lemma showNode_unmarked [simp]: "\<not> ff_hidden n \<Longrightarrow> showNode n = n"
  by (simp add: showNode_def)

lemma marker_ok_hideNode [simp]: "marker_ok (hideNode n)"
  by (simp add: marker_ok_def)

lemma marker_ok_showNode [simp]: "marker_ok (showNode n)"
  by (simp add: marker_ok_def)

text \<open>
  Updating by identity: a fold of \<open>upd_node\<close> over distinct identities applies the
  effect once to every node whose identity is in the list.
\<close>

lemma upd_node_page [simp]:
  "pathname (upd_node i f p) = pathname p" "dsel (upd_node i f p) = dsel p"
  "video (upd_node i f p) = video p" "overlay (upd_node i f p) = overlay p"
  by (simp_all add: upd_node_def)

lemma fold_upd_node:
  assumes "distinct ids" and "\<And>n. nid (f n) = nid n"
  shows "fold (\<lambda>i. upd_node i f) ids p
         = p\<lparr>nodes := map (\<lambda>n. if nid n \<in> set ids then f n else n) (nodes p)\<rparr>"
  using assms(1)
proof (induction ids arbitrary: p)
  case Nil
  then show ?case by simp
next
  case (Cons i ids)
  have "fold (\<lambda>i. upd_node i f) (i # ids) p = fold (\<lambda>i. upd_node i f) ids (upd_node i f p)"
    by simp
  also have "\<dots> = (upd_node i f p)\<lparr>nodes := map (\<lambda>n. if nid n \<in> set ids then f n else n)
                                       (nodes (upd_node i f p))\<rparr>"
    using Cons by simp
  also have "\<dots> = p\<lparr>nodes := map (\<lambda>n. if nid n \<in> set (i # ids) then f n else n) (nodes p)\<rparr>"
    using Cons.prems assms(2) by (auto simp: upd_node_def)
  finally show ?case .
qed

text \<open>The same for an idempotent effect, over any list of identities.\<close>

lemma fold_upd_node_idem:
  assumes "\<And>n. nid (f n) = nid n" and "\<And>n. f (f n) = f n"
  shows "fold (\<lambda>i. upd_node i f) ids p
         = p\<lparr>nodes := map (\<lambda>n. if nid n \<in> set ids then f n else n) (nodes p)\<rparr>"
proof (induction ids arbitrary: p)
  case Nil
  then show ?case by simp
next
  case (Cons i ids)
  have "fold (\<lambda>i. upd_node i f) (i # ids) p = fold (\<lambda>i. upd_node i f) ids (upd_node i f p)"
    by simp
  also have "\<dots> = (upd_node i f p)\<lparr>nodes := map (\<lambda>n. if nid n \<in> set ids then f n else n)
                                       (nodes (upd_node i f p))\<rparr>"
    using Cons by simp
  also have "\<dots> = p\<lparr>nodes := map (\<lambda>n. if nid n \<in> set (i # ids) then f n else n) (nodes p)\<rparr>"
    using assms by (auto simp: upd_node_def)
  finally show ?case .
qed

lemma restore_all_eq:
  "restore_all p = removeBlockedOverlay (p\<lparr>nodes := map showNode (nodes p)\<rparr>)"
proof -
  have "\<And>n. n \<in> set (nodes p) \<Longrightarrow>
          (if nid n \<in> set (marked_ids p) then showNode n else n) = showNode n"
    by (auto simp: marked_ids_def showNode_def)
  then show ?thesis
    by (simp add: restore_all_def fold_upd_node_idem cong: map_cong)
qed

lemma removeBlockedOverlay_nodes [simp]: "nodes (removeBlockedOverlay p) = nodes p"
  by (simp add: removeBlockedOverlay_def)

lemma showBlockedOverlay_nodes [simp]: "nodes (showBlockedOverlay r p) = nodes p"
  by (simp add: showBlockedOverlay_def)

lemma pause_video_nodes [simp]: "nodes (pause_video p) = nodes p"
  by (simp add: pause_video_def)

lemma overlay_showBlockedOverlay [simp]: "overlay (showBlockedOverlay r p)"
  by (simp add: showBlockedOverlay_def)

lemma overlay_removeBlockedOverlay [simp]: "\<not> overlay (removeBlockedOverlay p)"
  by (simp add: removeBlockedOverlay_def)

lemma marker_inv_nodes: "marker_inv p \<longleftrightarrow> list_all marker_ok (nodes p)"
  by (simp add: marker_inv_def list_all_iff)

lemma wf_page_inj: "wf_page p \<Longrightarrow> inj_on nid (set (nodes p))"
  by (simp add: wf_page_def distinct_map)

lemma distinct_ids_where: "wf_page p \<Longrightarrow> distinct (ids_where p P)"
  by (simp add: wf_page_def ids_where_def distinct_map_filter)

lemma set_ids_where: "set (ids_where p P) = nid ` {n \<in> set (nodes p). P n}"
  by (auto simp: ids_where_def)

text \<open>
  On a well-formed page, a fold of an effect over the identities of the nodes that
  satisfy a test is the effect applied, in place, to exactly those nodes.
\<close>

lemma fold_upd_node_where:
  assumes "wf_page p" and "distinct ids" and "set ids = nid ` {n \<in> set (nodes p). P n}"
    and "\<And>n. nid (f n) = nid n"
  shows "fold (\<lambda>i. upd_node i f) ids p = p\<lparr>nodes := map (\<lambda>n. if P n then f n else n) (nodes p)\<rparr>"
proof -
  have "\<And>n. n \<in> set (nodes p) \<Longrightarrow> (nid n \<in> set ids) = P n"
    using assms(1,3) wf_page_inj [OF assms(1)] by (auto simp: inj_on_image_mem_iff)
  then show ?thesis
    using assms(2,4) by (simp add: fold_upd_node cong: map_cong)
qed

lemma wf_page_map:
  "(\<And>n. nid (f n) = nid n) \<Longrightarrow> wf_page (p\<lparr>nodes := map f (nodes p)\<rparr>) = wf_page p"
  by (simp add: wf_page_def comp_def)

lemma page_effects_frame [simp]:
  "pathname (showBlockedOverlay r p) = pathname p" "dsel (showBlockedOverlay r p) = dsel p"
  "video (showBlockedOverlay r p) = video p"
  "pathname (removeBlockedOverlay p) = pathname p" "dsel (removeBlockedOverlay p) = dsel p"
  "video (removeBlockedOverlay p) = video p"
  "pathname (pause_video p) = pathname p" "dsel (pause_video p) = dsel p"
  "overlay (pause_video p) = overlay p"
  by (simp_all add: showBlockedOverlay_def removeBlockedOverlay_def pause_video_def)

lemma video_pause_video [simp]: "video (pause_video p) = map_option (\<lambda>_. Paused) (video p)"
  by (simp add: pause_video_def)

lemma doc_query_frame [simp]:
  "doc_query (showBlockedOverlay r p) = doc_query p" "doc_query (removeBlockedOverlay p) = doc_query p"
  "doc_query (pause_video p) = doc_query p" "doc_query (p\<lparr>nodes := ns\<rparr>) = doc_query p"
  by (rule ext, simp add: doc_query_def)+

lemma showBlockedOverlay_idem [simp]:
  "showBlockedOverlay r (showBlockedOverlay r' p) = showBlockedOverlay r' p"
  by (simp add: showBlockedOverlay_def)

lemma removeBlockedOverlay_idem [simp]: "removeBlockedOverlay (removeBlockedOverlay p) = removeBlockedOverlay p"
  by (simp add: removeBlockedOverlay_def)

lemma pause_video_idem [simp]: "pause_video (pause_video p) = pause_video p"
  by (simp add: pause_video_def option.map_comp comp_def)

lemma showBlockedOverlay_pause [simp]:
  "showBlockedOverlay r (pause_video p) = pause_video (showBlockedOverlay r p)"
  by (simp add: showBlockedOverlay_def pause_video_def)

lemma remove_show_overlay [simp]:
  "removeBlockedOverlay (showBlockedOverlay r p) = removeBlockedOverlay p"
  "showBlockedOverlay r (removeBlockedOverlay p) = showBlockedOverlay r p"
  by (simp_all add: showBlockedOverlay_def removeBlockedOverlay_def)

lemma removeBlockedOverlay_pause [simp]:
  "removeBlockedOverlay (pause_video p) = pause_video (removeBlockedOverlay p)"
  by (simp add: removeBlockedOverlay_def pause_video_def)

lemma restore_all_idem: "restore_all (restore_all p) = restore_all p"
  by (simp add: restore_all_eq removeBlockedOverlay_def)

lemma pause_show_dsel:
  "pause_video (showBlockedOverlay r (q\<lparr>dsel := ds\<rparr>)) = (pause_video (showBlockedOverlay r q))\<lparr>dsel := ds\<rparr>"
  by (simp add: showBlockedOverlay_def pause_video_def)

end
