(* ===== verification/Extractor.thy ===== *)
theory Extractor
  imports Dom
begin

text \<open>
  The signal extractor of src/content.js: \<open>extractTitleAndChannel\<close> (lines 78--103)
  for listing nodes, and the title and channel reads of the watch page (lines
  221--234). Each selector loop is a \<open>fun\<close> over the selector list.

  The two loops do not follow the same rule. A listing loop skips a selector whose
  element is missing \<^emph>\<open>or\<close> has an empty \<open>innerText\<close> (\<open>first_text\<close>); a watch-page
  loop stops at the first selector whose element exists, even when the text it reads
  there is empty (\<open>watch_first\<close>). The properties characterise both loops,
  bound the fallback title to 200 code units, and show the consequence of the second
  rule: an \<open>h1\<close> title element that reads empty hides the \<open>meta\<close> title.
\<close>

definition titleSelectors :: "string list" where
  "titleSelectors =
     [''#video-title'', ''a#video-title'', ''yt-formatted-string#title'', ''h3 a'', ''h3.title'']"

definition channelSelectors :: "string list" where
  "channelSelectors =
     [''ytd-channel-name'', ''ytd-channel-name a'', ''.ytd-channel-name'',
      ''a.yt-simple-endpoint.yt-formatted-string'', ''span.channel-title'']"

text \<open>\<open>for (sel of sels) { el = q(sel); if (el && el.innerText) { r = el.innerText; break; } }\<close>\<close>

fun first_text :: "(string \<Rightarrow> elem option) \<Rightarrow> string list \<Rightarrow> jstr" where
  "first_text q [] = []"
| "first_text q (s # ss) =
     (case q s of
        Some el \<Rightarrow> if e_text el \<noteq> [] then e_text el else first_text q ss
      | None \<Rightarrow> first_text q ss)"

definition extractTitleAndChannel :: "node \<Rightarrow> jstr \<times> jstr" where
  "extractTitleAndChannel n =
     (let title = first_text (node_query n) titleSelectors;
          channel = first_text (node_query n) channelSelectors;
          title' = (if title = [] \<and> inner n \<noteq> [] then take 200 (inner n) else title)
      in (title', channel))"

subsection \<open>Watch page\<close>

definition watchTitleSel :: "string list" where
  "watchTitleSel = [''h1.title yt-formatted-string'', ''meta[name='title']'']"

definition watchChannelSel :: "string list" where
  "watchChannelSel = [''ytd-channel-name a'', ''ytd-channel-name'']"

text \<open>\<open>for (s of sels) { el = document.querySelector(s); if (el) { r = read(el); break; } }\<close>\<close>

fun watch_first :: "(string \<Rightarrow> elem option) \<Rightarrow> (elem \<Rightarrow> jstr) \<Rightarrow> string list \<Rightarrow> jstr" where
  "watch_first q rd [] = []"
| "watch_first q rd (s # ss) = (case q s of Some el \<Rightarrow> rd el | None \<Rightarrow> watch_first q rd ss)"

text \<open>\<open>el.innerText || el.getAttribute("content") || ""\<close>\<close>

definition title_of_elem :: "elem \<Rightarrow> jstr" where
  "title_of_elem el =
     (if e_text el \<noteq> [] then e_text el
      else case e_content el of Some c \<Rightarrow> c | None \<Rightarrow> [])"

definition watch_title :: "page \<Rightarrow> jstr" where
  "watch_title p = watch_first (doc_query p) title_of_elem watchTitleSel"

definition watch_channel :: "page \<Rightarrow> jstr" where
  "watch_channel p = watch_first (doc_query p) e_text watchChannelSel"

subsection \<open>Lemmas\<close>

lemma first_text_nonempty_source:
  "first_text q ss \<noteq> [] \<Longrightarrow> \<exists>s \<in> set ss. \<exists>el. q s = Some el \<and> e_text el = first_text q ss"
  by (induction ss) (auto split: option.splits if_splits)

lemma extract_frame [simp]:
  "extractTitleAndChannel (hideNode n) = extractTitleAndChannel n"
  "extractTitleAndChannel (showNode n) = extractTitleAndChannel n"
  by (simp_all only: extractTitleAndChannel_def node_query_hideNode node_query_showNode
      hideNode_frame showNode_frame)

lemma extract_title_cases:
  "fst (extractTitleAndChannel n) = first_text (node_query n) titleSelectors
   \<or> fst (extractTitleAndChannel n) = take 200 (inner n)"
  by (auto simp: extractTitleAndChannel_def Let_def)

lemma watch_reads_frame [simp]:
  "watch_title (showBlockedOverlay r p) = watch_title p" "watch_title (removeBlockedOverlay p) = watch_title p"
  "watch_title (pause_video p) = watch_title p" "watch_title (p\<lparr>nodes := ns\<rparr>) = watch_title p"
  "watch_channel (showBlockedOverlay r p) = watch_channel p"
  "watch_channel (removeBlockedOverlay p) = watch_channel p"
  "watch_channel (pause_video p) = watch_channel p" "watch_channel (p\<lparr>nodes := ns\<rparr>) = watch_channel p"
  by (simp_all add: watch_title_def watch_channel_def)

subsection \<open>Properties of the extractor\<close>

text \<open>
  C19. Bounded fallback: when no title selector yields text, the title is the node's
  own \<open>innerText\<close> cut to its first 200 code units, so it is never longer than 200.
\<close>

theorem fallback_title_bounded:
  assumes "first_text (node_query n) titleSelectors = []"
  shows "fst (extractTitleAndChannel n) = take 200 (inner n)
         \<and> length (fst (extractTitleAndChannel n)) \<le> 200"
  using assms by (simp add: extractTitleAndChannel_def Let_def)

theorem fallback_title_bounded_witness:
  "first_text (node_query \<lparr>nid = 7, tag = js ''ytd-video-renderer'', sel = [], thumb_href = None,
       inner = replicate 300 (97::nat), display = [], ff_hidden = False\<rparr>) titleSelectors = []
   \<and> length (fst (extractTitleAndChannel \<lparr>nid = 7, tag = js ''ytd-video-renderer'', sel = [],
       thumb_href = None, inner = replicate 300 (97::nat), display = [], ff_hidden = False\<rparr>)) = 200"
proof -
  let ?n = "\<lparr>nid = 7, tag = js ''ytd-video-renderer'', sel = [], thumb_href = None,
       inner = replicate 300 (97::nat), display = [], ff_hidden = False\<rparr>"
  have h: "first_text (node_query ?n) titleSelectors = []"
    by (simp add: node_query_def titleSelectors_def)
  show ?thesis using h fallback_title_bounded [OF h] by simp
qed

text \<open>
  C20. Selector loop: the listing extractor returns the \<open>innerText\<close> of the element of
  the first selector whose element exists and has non-empty text, and the empty string
  when there is none.
\<close>

theorem first_text_first_nonempty:
  "first_text q ss =
     (case find (\<lambda>s. case q s of Some el \<Rightarrow> e_text el \<noteq> [] | None \<Rightarrow> False) ss of
        None \<Rightarrow> [] | Some s \<Rightarrow> e_text (the (q s)))"
  by (induction ss) (auto split: option.splits)

text \<open>
  C21. The watch-page title loop stops at the first selector whose element exists: when
  the \<open>h1\<close> title element is present the title is read from it alone, even when it
  reads empty, and the \<open>meta[name='title']\<close> element is consulted only when there is
  no \<open>h1\<close> title element. (The listing loop of C20 instead skips an element whose text
  is empty.)
\<close>

theorem watch_title_first_existing:
  "watch_title p =
     (case doc_query p ''h1.title yt-formatted-string'' of
        Some el \<Rightarrow> title_of_elem el
      | None \<Rightarrow> (case doc_query p ''meta[name='title']'' of Some m \<Rightarrow> title_of_elem m | None \<Rightarrow> []))"
  by (simp add: watch_title_def watchTitleSel_def split: option.split)

text \<open>An instance: an empty \<open>h1\<close> title hides the title the \<open>meta\<close> element carries.\<close>

lemma empty_h1_example:
  "watch_title \<lparr>nodes = [], pathname = js ''/watch'',
     dsel = [(''h1.title yt-formatted-string'', \<lparr>e_text = [], e_content = None\<rparr>),
             (''meta[name='title']'', \<lparr>e_text = [], e_content = Some (js ''Calculus 101'')\<rparr>)],
     video = None, overlay = False\<rparr> = []"
  by (simp add: doc_query_def watch_title_def watchTitleSel_def title_of_elem_def)

end
