(* ===== verification/Classifier.thy ===== *)
theory Classifier
  imports JS_Base
begin

text \<open>
  The classifier of src/content.js: the three built-in keyword lists (lines 13--36) and
  \<open>isEducationalByText\<close> (lines 57--76), a pure function of a title, a channel name, the
  allow-keywords and the channel whitelist. Each \<open>for \<dots> of\<close> loop of the source that
  returns on its first hit is one predicate over the list it walks
  (\<open>blacklist_hit\<close>, \<open>whitelist_hit\<close>, \<open>keyword_hit\<close>); the function tests them in the
  source's order, then the length and emoji heuristic, then falls through to \<open>false\<close>.

  \<open>classify_spec\<close> is the contract of the classifier stated with \<open>sublist\<close> and
  quantifiers instead of loops: no blacklisted word in the normalised title or channel,
  and a whitelisted channel name or an allow-keyword present. The lemmas show the
  priority of the veto, the positive signals, the equivalence of the code with the
  contract (the heuristic of line 73 has no effect, since the default is also
  \<open>false\<close>), invariance under normalisation, and monotonicity in the lists.
\<close>

subsection \<open>Built-in lists\<close>

definition DEFAULT_ALLOW_KEYWORDS :: "jstr list" where
  "DEFAULT_ALLOW_KEYWORDS = map js
    [''lecture'', ''tutorial'', ''how to'', ''course'', ''class'', ''lesson'',
     ''study'', ''explain'', ''explanation'', ''guide'', ''physics'', ''chemistry'',
     ''biology'', ''math'', ''mathematics'', ''algebra'', ''calculus'', ''engineering'',
     ''science'', ''programming'', ''coding'', ''khan academy'', ''crashcourse'',
     ''mit'', ''ocw'', ''coursera'', ''edx'', ''educational'', ''experiment'', ''revision'',
     ''exam'', ''notes'', ''concept'', ''topic'', ''university'', ''school'']"

definition DEFAULT_CHANNEL_WHITELIST :: "jstr list" where
  "DEFAULT_CHANNEL_WHITELIST = map js
    [''Khan Academy'', ''CrashCourse'', ''MIT OpenCourseWare'', ''3Blue1Brown'',
     ''Computerphile'', ''Numberphile'', ''freeCodeCamp.org'', ''TED-Ed'',
     ''Kurzgesagt'', ''Veritasium'', ''MinutePhysics'', ''SmarterEveryDay'']"

definition ENTERTAINMENT_BLACKLIST :: "jstr list" where
  "ENTERTAINMENT_BLACKLIST = map js
    [''prank'', ''challenge'', ''funny'', ''vlog'', ''reaction'', ''music video'',
     ''lyrics'', ''song'', ''meme'', ''dance'', ''gaming'', ''fortnite'', ''minecraft'',
     ''mrbeast'', ''clips'', ''shorts'', ''highlight'', ''trailer'', ''movie'', ''show'',
     ''asmr'', ''podcast'', ''stream'', ''celebrity'', ''tiktok'', ''standup'', ''roast'',
     ''roblox'']"

subsection \<open>The classifier\<close>

text \<open>\<open>/[\u{1F300}-\u{1FAFF}]/u.test(t)\<close>: some code point of \<open>t\<close> lies in the range.\<close>

definition has_emoji :: "jstr \<Rightarrow> bool" where
  "has_emoji t = list_ex (\<lambda>cp. 127744 \<le> cp \<and> cp \<le> 129791) (code_points t)"

definition blacklist_hit :: "jstr \<Rightarrow> jstr \<Rightarrow> bool" where
  "blacklist_hit t c =
     list_ex (\<lambda>bad. str_includes t (norm bad) \<or> str_includes c (norm bad))
       ENTERTAINMENT_BLACKLIST"

definition whitelist_hit :: "jstr \<Rightarrow> jstr list \<Rightarrow> bool" where
  "whitelist_hit c channelWhitelist = list_ex (\<lambda>ch. str_includes c (norm ch)) channelWhitelist"

definition keyword_hit :: "jstr \<Rightarrow> jstr \<Rightarrow> jstr list \<Rightarrow> bool" where
  "keyword_hit t c allowKeywords =
     list_ex (\<lambda>kw. str_includes t (norm kw) \<or> str_includes c (norm kw)) allowKeywords"

definition isEducationalByText :: "jstr \<Rightarrow> jstr \<Rightarrow> jstr list \<Rightarrow> jstr list \<Rightarrow> bool" where
  "isEducationalByText title channel allowKeywords channelWhitelist =
     (let t = norm title; c = norm channel in
      if blacklist_hit t c then False
      else if whitelist_hit c channelWhitelist then True
      else if keyword_hit t c allowKeywords then True
      else if length t < 10 \<or> has_emoji t then False
      else False)"

subsection \<open>The contract\<close>

definition classify_spec :: "jstr \<Rightarrow> jstr \<Rightarrow> jstr list \<Rightarrow> jstr list \<Rightarrow> bool" where
  "classify_spec title channel kws wl \<longleftrightarrow>
     (\<forall>b \<in> set ENTERTAINMENT_BLACKLIST.
        \<not> sublist b (norm title) \<and> \<not> sublist b (norm channel))
     \<and> ((\<exists>w \<in> set wl. sublist (norm w) (norm channel))
        \<or> (\<exists>k \<in> set kws. sublist (norm k) (norm title) \<or> sublist (norm k) (norm channel)))"

subsection \<open>Lemmas\<close>

lemma norm_blacklist: "map norm ENTERTAINMENT_BLACKLIST = ENTERTAINMENT_BLACKLIST"
  by (simp add: ENTERTAINMENT_BLACKLIST_def norm_def js_trim_def js_lower_def
      js_lower_unit_def js_ws_def js_def)

lemma norm_blacklist_mem [simp]:
  assumes "b \<in> set ENTERTAINMENT_BLACKLIST"
  shows "norm b = b"
proof -
  have "map norm ENTERTAINMENT_BLACKLIST = map id ENTERTAINMENT_BLACKLIST"
    using norm_blacklist by (simp only: list.map_id)
  then have "\<forall>x \<in> set ENTERTAINMENT_BLACKLIST. norm x = id x"
    by (simp only: map_eq_conv)
  with assms show ?thesis by simp
qed

lemma blacklist_hit_iff:
  "blacklist_hit t c \<longleftrightarrow>
     (\<exists>b \<in> set ENTERTAINMENT_BLACKLIST. str_includes t b \<or> str_includes c b)"
  by (auto simp: blacklist_hit_def list_ex_iff)

lemma whitelist_hit_iff:
  "whitelist_hit c wl \<longleftrightarrow> (\<exists>w \<in> set wl. str_includes c (norm w))"
  by (simp add: whitelist_hit_def list_ex_iff)

lemma keyword_hit_iff:
  "keyword_hit t c kws \<longleftrightarrow> (\<exists>k \<in> set kws. str_includes t (norm k) \<or> str_includes c (norm k))"
  by (simp add: keyword_hit_def list_ex_iff)

lemmas hit_iffs = blacklist_hit_iff whitelist_hit_iff keyword_hit_iff

text \<open>The decision of the code, with the dead heuristic branch folded away.\<close>

lemma isEducationalByText_eq:
  "isEducationalByText title channel kws wl \<longleftrightarrow>
     \<not> blacklist_hit (norm title) (norm channel)
     \<and> (whitelist_hit (norm channel) wl \<or> keyword_hit (norm title) (norm channel) kws)"
  by (simp add: isEducationalByText_def Let_def)

lemma whitelist_hit_mono:
  "set wl \<subseteq> set wl' \<Longrightarrow> whitelist_hit c wl \<Longrightarrow> whitelist_hit c wl'"
  by (auto simp: whitelist_hit_iff)

lemma keyword_hit_mono:
  "set kws \<subseteq> set kws' \<Longrightarrow> keyword_hit t c kws \<Longrightarrow> keyword_hit t c kws'"
  by (auto simp: keyword_hit_iff)

lemma whitelist_hit_map_norm [simp]: "whitelist_hit c (map norm wl) = whitelist_hit c wl"
  by (simp add: whitelist_hit_iff)

lemma keyword_hit_map_norm [simp]: "keyword_hit t c (map norm kws) = keyword_hit t c kws"
  by (simp add: keyword_hit_iff)

lemmas classify_eval = isEducationalByText_def blacklist_hit_def whitelist_hit_def keyword_hit_def
  has_emoji_def DEFAULT_ALLOW_KEYWORDS_def DEFAULT_CHANNEL_WHITELIST_def ENTERTAINMENT_BLACKLIST_def
  norm_def js_trim_def js_lower_def js_lower_unit_def js_ws_def js_def

subsection \<open>Properties of the classifier\<close>

text \<open>
  C1. Veto precedence: when a blacklisted word occurs in the normalised title or
  channel, the item is not educational, whatever the allow-keywords and the whitelist.
\<close>

theorem blacklist_veto:
  assumes "b \<in> set ENTERTAINMENT_BLACKLIST"
    and "str_includes (norm title) b \<or> str_includes (norm channel) b"
  shows "\<not> isEducationalByText title channel kws wl"
  using assms by (auto simp: isEducationalByText_def Let_def blacklist_hit_iff)

theorem blacklist_veto_witness:
  "js ''fortnite'' \<in> set ENTERTAINMENT_BLACKLIST
   \<and> str_includes (norm (js ''Fortnite tutorial'')) (js ''fortnite'')
   \<and> whitelist_hit (norm (js ''Khan Academy'')) DEFAULT_CHANNEL_WHITELIST
   \<and> \<not> isEducationalByText (js ''Fortnite tutorial'') (js ''Khan Academy'')
        DEFAULT_ALLOW_KEYWORDS DEFAULT_CHANNEL_WHITELIST"
proof -
  have h1: "js ''fortnite'' \<in> set ENTERTAINMENT_BLACKLIST"
    by (simp add: ENTERTAINMENT_BLACKLIST_def)
  have h2: "str_includes (norm (js ''Fortnite tutorial'')) (js ''fortnite'')"
    by (simp add: classify_eval)
  have h3: "whitelist_hit (norm (js ''Khan Academy'')) DEFAULT_CHANNEL_WHITELIST"
    by (simp add: classify_eval)
  show ?thesis
    using h1 h2 h3 blacklist_veto [OF h1, of "js ''Fortnite tutorial''" "js ''Khan Academy''"]
    by blast
qed

text \<open>
  C2. Channel trust: with no blacklisted word present, a channel whose normalised name
  contains a normalised whitelist entry is educational, whatever the title.
\<close>

theorem whitelisted_channel_passes:
  assumes "\<not> blacklist_hit (norm title) (norm channel)"
    and "w \<in> set wl" and "str_includes (norm channel) (norm w)"
  shows "isEducationalByText title channel kws wl"
  using assms by (auto simp: isEducationalByText_eq whitelist_hit_iff)

theorem whitelisted_channel_passes_witness:
  "\<not> blacklist_hit (norm (js ''xyz'')) (norm (js ''Khan Academy Official''))
   \<and> js ''Khan Academy'' \<in> set DEFAULT_CHANNEL_WHITELIST
   \<and> str_includes (norm (js ''Khan Academy Official'')) (norm (js ''Khan Academy''))
   \<and> isEducationalByText (js ''xyz'') (js ''Khan Academy Official'')
       DEFAULT_ALLOW_KEYWORDS DEFAULT_CHANNEL_WHITELIST"
proof -
  have h1: "\<not> blacklist_hit (norm (js ''xyz'')) (norm (js ''Khan Academy Official''))"
    by (simp add: classify_eval)
  have h2: "js ''Khan Academy'' \<in> set DEFAULT_CHANNEL_WHITELIST"
    by (simp add: DEFAULT_CHANNEL_WHITELIST_def)
  have h3: "str_includes (norm (js ''Khan Academy Official'')) (norm (js ''Khan Academy''))"
    by (simp add: classify_eval)
  show ?thesis
    using h1 h2 h3 whitelisted_channel_passes [OF h1 h2 h3, of DEFAULT_ALLOW_KEYWORDS] by blast
qed

text \<open>
  C3. Keyword allow: with no blacklisted word present, an allow-keyword occurring in
  the normalised title or channel makes the item educational.
\<close>

theorem allow_keyword_passes:
  assumes "\<not> blacklist_hit (norm title) (norm channel)"
    and "k \<in> set kws"
    and "str_includes (norm title) (norm k) \<or> str_includes (norm channel) (norm k)"
  shows "isEducationalByText title channel kws wl"
  using assms by (auto simp: isEducationalByText_eq keyword_hit_iff)

theorem allow_keyword_passes_witness:
  "\<not> blacklist_hit (norm (js ''Linear algebra lecture 3'')) (norm (js ''Some Prof''))
   \<and> js ''algebra'' \<in> set DEFAULT_ALLOW_KEYWORDS
   \<and> str_includes (norm (js ''Linear algebra lecture 3'')) (norm (js ''algebra''))
   \<and> isEducationalByText (js ''Linear algebra lecture 3'') (js ''Some Prof'')
       DEFAULT_ALLOW_KEYWORDS DEFAULT_CHANNEL_WHITELIST"
proof -
  have h1: "\<not> blacklist_hit (norm (js ''Linear algebra lecture 3'')) (norm (js ''Some Prof''))"
    by (simp add: classify_eval)
  have h2: "js ''algebra'' \<in> set DEFAULT_ALLOW_KEYWORDS"
    by (simp add: DEFAULT_ALLOW_KEYWORDS_def)
  have h3: "str_includes (norm (js ''Linear algebra lecture 3'')) (norm (js ''algebra''))"
    by (simp add: classify_eval)
  show ?thesis
    using h1 h2 h3 allow_keyword_passes [OF h1 h2, of DEFAULT_CHANNEL_WHITELIST] by blast
qed

text \<open>
  C4. The code implements its contract: \<open>isEducationalByText\<close> is true exactly when no
  blacklisted word occurs in the normalised title or channel and a whitelisted channel
  name or an allow-keyword does. In particular the length and emoji heuristic of
  line 73 never changes the result.
\<close>

theorem isEducationalByText_refines_spec:
  "isEducationalByText title channel kws wl = classify_spec title channel kws wl"
  by (auto simp: isEducationalByText_eq classify_spec_def hit_iffs str_includes_iff_sublist)

theorem isEducationalByText_refines_spec_witness:
  "classify_spec (js ''xyz'') (js ''Khan Academy Official'')
     DEFAULT_ALLOW_KEYWORDS DEFAULT_CHANNEL_WHITELIST
   \<and> \<not> classify_spec (js ''cats'') [] DEFAULT_ALLOW_KEYWORDS DEFAULT_CHANNEL_WHITELIST"
proof -
  have "isEducationalByText (js ''xyz'') (js ''Khan Academy Official'')
     DEFAULT_ALLOW_KEYWORDS DEFAULT_CHANNEL_WHITELIST"
    by (simp add: classify_eval)
  moreover have "\<not> isEducationalByText (js ''cats'') [] DEFAULT_ALLOW_KEYWORDS DEFAULT_CHANNEL_WHITELIST"
    by (simp add: classify_eval)
  ultimately show ?thesis
    using isEducationalByText_refines_spec [of "js ''xyz''" "js ''Khan Academy Official''"
        DEFAULT_ALLOW_KEYWORDS DEFAULT_CHANNEL_WHITELIST]
      isEducationalByText_refines_spec [of "js ''cats''" "[]"
        DEFAULT_ALLOW_KEYWORDS DEFAULT_CHANNEL_WHITELIST]
    by simp
qed

text \<open>
  C5. Closed world: without a whitelisted channel name and without an allow-keyword in
  the normalised title or channel, the item is not educational, whatever its length.
\<close>

theorem no_signal_rejected:
  assumes "\<not> whitelist_hit (norm channel) wl"
    and "\<not> keyword_hit (norm title) (norm channel) kws"
  shows "\<not> isEducationalByText title channel kws wl"
  using assms by (simp add: isEducationalByText_eq)

theorem no_signal_rejected_witness:
  "\<not> whitelist_hit (norm []) DEFAULT_CHANNEL_WHITELIST
   \<and> \<not> keyword_hit (norm (js ''cats'')) (norm []) DEFAULT_ALLOW_KEYWORDS
   \<and> \<not> isEducationalByText (js ''cats'') [] DEFAULT_ALLOW_KEYWORDS DEFAULT_CHANNEL_WHITELIST"
proof -
  have h1: "\<not> whitelist_hit (norm []) DEFAULT_CHANNEL_WHITELIST"
    by (simp add: classify_eval)
  have h2: "\<not> keyword_hit (norm (js ''cats'')) (norm []) DEFAULT_ALLOW_KEYWORDS"
    by (simp add: classify_eval)
  show ?thesis using h1 h2 no_signal_rejected [OF h1 h2] by blast
qed

text \<open>
  C6. Normalisation: the verdict depends on the title, the channel and the list entries
  only through their lower-cased, trimmed forms.
\<close>

theorem isEducationalByText_norm_invariant:
  "isEducationalByText (norm title) (norm channel) (map norm kws) (map norm wl)
   = isEducationalByText title channel kws wl"
  by (simp add: isEducationalByText_eq)

text \<open>
  C7. Monotonicity: adding allow-keywords or whitelist entries never hides an item that
  was educational before.
\<close>

theorem isEducationalByText_mono:
  assumes "set kws \<subseteq> set kws'" and "set wl \<subseteq> set wl'"
    and "isEducationalByText title channel kws wl"
  shows "isEducationalByText title channel kws' wl'"
  using assms whitelist_hit_mono keyword_hit_mono by (auto simp: isEducationalByText_eq)

theorem isEducationalByText_mono_witness:
  "set [] \<subseteq> set [js ''cats''] \<and> set DEFAULT_CHANNEL_WHITELIST \<subseteq> set DEFAULT_CHANNEL_WHITELIST
   \<and> isEducationalByText (js ''xyz'') (js ''Khan Academy Official'') [] DEFAULT_CHANNEL_WHITELIST
   \<and> isEducationalByText (js ''xyz'') (js ''Khan Academy Official'') [js ''cats'']
       DEFAULT_CHANNEL_WHITELIST"
proof -
  have h: "isEducationalByText (js ''xyz'') (js ''Khan Academy Official'') [] DEFAULT_CHANNEL_WHITELIST"
    by (simp add: classify_eval)
  show ?thesis
    using h isEducationalByText_mono [of "[]" "[js ''cats'']" DEFAULT_CHANNEL_WHITELIST
        DEFAULT_CHANNEL_WHITELIST, OF _ _ h]
    by simp
qed

text \<open>
  C8. An allow-keyword that normalises to the empty string (a blank entry) admits every
  item that carries no blacklisted word, since every string includes the empty one.
\<close>

theorem blank_keyword_admits_all:
  assumes "k \<in> set kws" and "norm k = []"
    and "\<not> blacklist_hit (norm title) (norm channel)"
  shows "isEducationalByText title channel kws wl"
proof -
  have "str_includes (norm title) (norm k)" using assms(2) by simp
  with assms(1) have "keyword_hit (norm title) (norm channel) kws"
    by (auto simp: keyword_hit_iff)
  with assms(3) show ?thesis by (simp add: isEducationalByText_eq)
qed

theorem blank_keyword_admits_all_witness:
  "js ''  '' \<in> set [js ''  ''] \<and> norm (js ''  '') = []
   \<and> \<not> blacklist_hit (norm (js ''cats'')) (norm [])
   \<and> isEducationalByText (js ''cats'') [] [js ''  ''] []"
proof -
  have h1: "js ''  '' \<in> set [js ''  '']" by simp
  have h2: "norm (js ''  '') = []" by (simp add: classify_eval)
  have h3: "\<not> blacklist_hit (norm (js ''cats'')) (norm [])" by (simp add: classify_eval)
  show ?thesis using h1 h2 h3 blank_keyword_admits_all [OF h1 h2 h3, of "[]"] by blast
qed

end
