(* ===== verification/Config.thy ===== *)
theory Config
  imports Classifier Dom
begin

text \<open>
  The configuration the content script reads at the start of every pass
  (src/content.js lines 8--11 and 155--176): the four storage keys, the truthiness
  tests on the focus and short-form flags, and the substitution of the built-in lists
  when a configured list is missing or empty (\<open>cfg[K]?.length ? cfg[K] : DEFAULT\<close>).
  A string stored under a list key has a \<open>length\<close> too and is iterated by
  \<open>for \<dots> of\<close> one code point at a time; a boolean has no \<open>length\<close>.
\<close>

definition FOCUS_MODE_KEY :: string where
  "FOCUS_MODE_KEY = ''focus_mode_enabled''"

definition CHANNEL_WHITELIST_KEY :: string where
  "CHANNEL_WHITELIST_KEY = ''focus_whitelist_channels''"

definition KEYWORD_ALLOWLIST_KEY :: string where
  "KEYWORD_ALLOWLIST_KEY = ''focus_allow_keywords''"

definition BLOCK_SHORTS_KEY :: string where
  "BLOCK_SHORTS_KEY = ''focus_block_shorts''"

fun cfg_list :: "sval option \<Rightarrow> jstr list \<Rightarrow> jstr list" where
  "cfg_list (Some (SList xs)) d = (if xs \<noteq> [] then xs else d)"
| "cfg_list (Some (SStr s)) d = (if s \<noteq> [] then utf16_split s else d)"
| "cfg_list _ d = d"

record config =
  focusMode :: bool
  blockShorts :: bool
  allowKeywords :: "jstr list"
  channelWhitelist :: "jstr list"

definition read_config :: "store \<Rightarrow> config" where
  "read_config cfg =
     \<lparr>focusMode = truthy (cfg FOCUS_MODE_KEY),
      blockShorts = truthy (cfg BLOCK_SHORTS_KEY),
      allowKeywords = cfg_list (cfg KEYWORD_ALLOWLIST_KEY) DEFAULT_ALLOW_KEYWORDS,
      channelWhitelist = cfg_list (cfg CHANNEL_WHITELIST_KEY) DEFAULT_CHANNEL_WHITELIST\<rparr>"

lemmas config_keys = FOCUS_MODE_KEY_def CHANNEL_WHITELIST_KEY_def KEYWORD_ALLOWLIST_KEY_def
  BLOCK_SHORTS_KEY_def

lemma config_keys_distinct:
  "FOCUS_MODE_KEY \<noteq> CHANNEL_WHITELIST_KEY" "FOCUS_MODE_KEY \<noteq> KEYWORD_ALLOWLIST_KEY"
  "FOCUS_MODE_KEY \<noteq> BLOCK_SHORTS_KEY" "CHANNEL_WHITELIST_KEY \<noteq> KEYWORD_ALLOWLIST_KEY"
  "CHANNEL_WHITELIST_KEY \<noteq> BLOCK_SHORTS_KEY" "KEYWORD_ALLOWLIST_KEY \<noteq> BLOCK_SHORTS_KEY"
  by (simp_all add: config_keys)

text \<open>Only the four keys of the \<open>getStorage\<close> call matter.\<close>

lemma read_config_cong:
  assumes "\<forall>k \<in> {FOCUS_MODE_KEY, CHANNEL_WHITELIST_KEY, KEYWORD_ALLOWLIST_KEY, BLOCK_SHORTS_KEY}.
             st k = st' k"
  shows "read_config st = read_config st'"
  using assms by (simp add: read_config_def)

lemma cfg_list_nonempty: "d \<noteq> [] \<Longrightarrow> cfg_list v d \<noteq> []"
  by (induction v d rule: cfg_list.induct) auto

subsection \<open>Properties of the configuration read\<close>

text \<open>
  C22. Effective lists: the allow-keywords and the whitelist a pass uses are never
  empty (a missing, empty or non-list value gives the built-in list), and a non-empty
  stored list of strings is used as stored.
\<close>

theorem effective_lists:
  "allowKeywords (read_config st) \<noteq> [] \<and> channelWhitelist (read_config st) \<noteq> []
   \<and> (st KEYWORD_ALLOWLIST_KEY = Some (SList xs) \<and> xs \<noteq> [] \<longrightarrow> allowKeywords (read_config st) = xs)
   \<and> (st CHANNEL_WHITELIST_KEY = Some (SList ys) \<and> ys \<noteq> [] \<longrightarrow> channelWhitelist (read_config st) = ys)"
  by (simp add: read_config_def cfg_list_nonempty DEFAULT_ALLOW_KEYWORDS_def DEFAULT_CHANNEL_WHITELIST_def)

theorem effective_lists_witness:
  "(Map.empty(KEYWORD_ALLOWLIST_KEY \<mapsto> SList [js ''rust''])) KEYWORD_ALLOWLIST_KEY
     = Some (SList [js ''rust''])
   \<and> allowKeywords (read_config (Map.empty(KEYWORD_ALLOWLIST_KEY \<mapsto> SList [js ''rust''])))
     = [js ''rust'']"
proof -
  let ?st = "Map.empty(KEYWORD_ALLOWLIST_KEY \<mapsto> SList [js ''rust''])"
  have h: "?st KEYWORD_ALLOWLIST_KEY = Some (SList [js ''rust'']) \<and> [js ''rust''] \<noteq> []" by simp
  from effective_lists [of ?st "[js ''rust'']"] h
  have "allowKeywords (read_config ?st) = [js ''rust'']" by blast
  with h show ?thesis by blast
qed

end
