(* ===== verification/Reconciler.thy ===== *)
theory Reconciler
  imports Extractor Config
begin

text \<open>
  The reconciliation pass \<open>processVideoItems\<close> of src/content.js (lines 154--245),
  from the point where the storage read has returned: \<open>processVideoItems cfg p\<close> takes
  the snapshot \<open>cfg\<close> of the store and the page, and returns the page the pass leaves.
  The \<open>await\<close> of line 155 is the boundary to the event model (theory \<open>Content_Script\<close>),
  which runs this function as the continuation of a pass.

  The pass is written as the source composes it: the restore path when focus mode is
  off; otherwise the item loop over the deduplicated results of the seven item
  selectors (\<open>process_items\<close>), the shelf loop (\<open>process_sections\<close>), the playlist
  loop (\<open>process_playlist\<close>) and the watch-page step (\<open>process_watch\<close>). Every loop is a
  \<open>fold\<close> of an effect on the node with a given identity, as the source mutates the
  node object it holds.

  The lemmas turn each loop into an in-place map over the nodes
  (\<open>processVideoItems_on\<close>): on a page with distinct identities the pass applies to
  each node the effect its tag selects, \<open>node_after\<close>. The claims about the pass follow
  from that equation and the algebra of \<open>hideNode\<close> and \<open>showNode\<close>; the idempotence
  of the pass (\<open>processVideoItems_idem\<close>) is shared with the event model.
\<close>

definition VIDEO_ITEM_SELECTORS :: "jstr list" where
  "VIDEO_ITEM_SELECTORS = map js
     [''ytd-rich-item-renderer'', ''ytd-video-renderer'', ''ytd-grid-video-renderer'',
      ''ytd-rich-grid-media'', ''ytd-reel-video-renderer'', ''ytd-compact-video-renderer'',
      ''ytd-playlist-renderer'']"

definition SECTION_TAG :: jstr where
  "SECTION_TAG = js ''ytd-rich-section-renderer''"

definition PLAYLIST_ENTRY_TAG :: jstr where
  "PLAYLIST_ENTRY_TAG = js ''ytd-playlist-video-renderer''"

text \<open>\<open>document.querySelectorAll(tag)\<close>\<close>

definition query_all :: "page \<Rightarrow> jstr \<Rightarrow> nat list" where
  "query_all p t = ids_where p (\<lambda>n. tag n = t)"

text \<open>\<open>Array.from(new Set(xs))\<close>: the first occurrence of each element, in order.\<close>

fun set_from :: "'a list \<Rightarrow> 'a list \<Rightarrow> 'a list" where
  "set_from acc [] = acc"
| "set_from acc (x # xs) = set_from (if x \<in> set acc then acc else acc @ [x]) xs"

subsection \<open>One listing item\<close>

text \<open>\<open>node.querySelector("a#thumbnail")?.href || ""\<close>\<close>

definition item_link :: "node \<Rightarrow> jstr" where
  "item_link n = (case thumb_href n of Some h \<Rightarrow> h | None \<Rightarrow> [])"

definition is_short_form :: "node \<Rightarrow> bool" where
  "is_short_form n \<longleftrightarrow>
     str_includes (item_link n) (js ''/shorts/'') \<or> str_includes (js_lower (tag n)) (js ''reel'')"

text \<open>Extract, classify, hide when not educational, else restore (lines 192--194).\<close>

definition classify_node :: "config \<Rightarrow> node \<Rightarrow> node" where
  "classify_node cfg n =
     (case extractTitleAndChannel n of (title, channel) \<Rightarrow>
        if \<not> isEducationalByText title channel (allowKeywords cfg) (channelWhitelist cfg)
        then hideNode n else showNode n)"

definition item_step :: "config \<Rightarrow> node \<Rightarrow> node" where
  "item_step cfg n =
     (if blockShorts cfg \<and> is_short_form n then hideNode n else classify_node cfg n)"

definition process_items :: "config \<Rightarrow> page \<Rightarrow> page" where
  "process_items cfg p =
     fold (\<lambda>i. upd_node i (item_step cfg))
       (set_from [] (concat (map (query_all p) VIDEO_ITEM_SELECTORS))) p"

subsection \<open>Shelves and playlist entries\<close>

text \<open>\<open>section.querySelector("#title")?.innerText?.toLowerCase() || ""\<close>\<close>

definition section_header :: "node \<Rightarrow> jstr" where
  "section_header n = (case node_query n ''#title'' of Some el \<Rightarrow> js_lower (e_text el) | None \<Rightarrow> [])"

definition section_blocked :: "bool \<Rightarrow> node \<Rightarrow> bool" where
  "section_blocked bs n \<longleftrightarrow>
     (let header = section_header n in
      str_includes header (js ''shorts'') \<or> str_includes header (js ''trending'')
      \<or> (bs \<and> str_includes header (js ''popular'')))"

definition section_step :: "config \<Rightarrow> node \<Rightarrow> node" where
  "section_step cfg n = (if section_blocked (blockShorts cfg) n then hideNode n else n)"

definition process_sections :: "config \<Rightarrow> page \<Rightarrow> page" where
  "process_sections cfg p = fold (\<lambda>i. upd_node i (section_step cfg)) (query_all p SECTION_TAG) p"

definition process_playlist :: "config \<Rightarrow> page \<Rightarrow> page" where
  "process_playlist cfg p =
     (if str_includes (pathname p) (js ''/playlist'')
      then fold (\<lambda>i. upd_node i (classify_node cfg)) (query_all p PLAYLIST_ENTRY_TAG) p
      else p)"

subsection \<open>Watch and Shorts pages\<close>

definition process_watch :: "config \<Rightarrow> page \<Rightarrow> page" where
  "process_watch cfg p =
     (if str_includes (pathname p) (js ''/watch'') \<or> str_includes (pathname p) (js ''/shorts'')
      then
        if blockShorts cfg \<and> str_includes (pathname p) (js ''/shorts'')
        then pause_video (showBlockedOverlay (js ''Shorts are blocked by FocusFlow'') p)
        else
          (let allowed = isEducationalByText (watch_title p) (watch_channel p)
                           (allowKeywords cfg) (channelWhitelist cfg)
           in if \<not> allowed \<and> video p \<noteq> None
              then showBlockedOverlay (js ''Blocked by FocusFlow'') (pause_video p)
              else removeBlockedOverlay p)
      else p)"

subsection \<open>The pass\<close>

definition processVideoItems :: "store \<Rightarrow> page \<Rightarrow> page" where
  "processVideoItems st p =
     (let cfg = read_config st in
      if \<not> focusMode cfg then restore_all p
      else process_watch cfg (process_playlist cfg (process_sections cfg (process_items cfg p))))"

text \<open>The effect the pass has on one node, chosen by its tag (derived, not code).\<close>

definition node_after :: "config \<Rightarrow> jstr \<Rightarrow> node \<Rightarrow> node" where
  "node_after cfg path n =
     (if tag n \<in> set VIDEO_ITEM_SELECTORS then item_step cfg n
      else if tag n = SECTION_TAG then section_step cfg n
      else if tag n = PLAYLIST_ENTRY_TAG \<and> str_includes path (js ''/playlist'')
      then classify_node cfg n
      else n)"

subsection \<open>Example pages\<close>

text \<open>Concrete pages and stores on which the properties below are instantiated.\<close>

definition demo_item :: node where
  "demo_item =
     \<lparr>nid = 1, tag = js ''ytd-rich-item-renderer'',
      sel = [(''#video-title'', \<lparr>e_text = js ''Fortnite tutorial'', e_content = None\<rparr>),
             (''ytd-channel-name'', \<lparr>e_text = js ''Khan Academy'', e_content = None\<rparr>)],
      thumb_href = Some (js ''https://www.youtube.com/watch?v=a1''), inner = [], display = [],
      ff_hidden = False\<rparr>"

definition demo_short :: node where
  "demo_short =
     \<lparr>nid = 2, tag = js ''ytd-rich-item-renderer'',
      sel = [(''#video-title'', \<lparr>e_text = js ''Calculus lecture 1'', e_content = None\<rparr>)],
      thumb_href = Some (js ''https://www.youtube.com/shorts/b2''), inner = [], display = [],
      ff_hidden = False\<rparr>"

definition demo_shelf :: node where
  "demo_shelf =
     \<lparr>nid = 3, tag = js ''ytd-rich-section-renderer'',
      sel = [(''#title'', \<lparr>e_text = js ''Trending'', e_content = None\<rparr>)],
      thumb_href = None, inner = [], display = [], ff_hidden = False\<rparr>"

definition demo_page :: page where
  "demo_page =
     \<lparr>nodes = [demo_item, demo_short, demo_shelf], pathname = js ''/'', dsel = [],
      video = None, overlay = False\<rparr>"

definition shorts_page :: page where
  "shorts_page =
     \<lparr>nodes = [], pathname = js ''/shorts/c3'',
      dsel = [(''h1.title yt-formatted-string'', \<lparr>e_text = js ''Dance challenge!!'', e_content = None\<rparr>)],
      video = Some Playing, overlay = False\<rparr>"

definition watch_page :: page where
  "watch_page =
     \<lparr>nodes = [], pathname = js ''/watch'',
      dsel = [(''h1.title yt-formatted-string'', \<lparr>e_text = js ''Funny cat compilation'', e_content = None\<rparr>)],
      video = Some Playing, overlay = False\<rparr>"

definition focus_store :: store where
  "focus_store = Map.empty(FOCUS_MODE_KEY \<mapsto> SBool True, BLOCK_SHORTS_KEY \<mapsto> SBool True)"

definition focus_only_store :: store where
  "focus_only_store = Map.empty(FOCUS_MODE_KEY \<mapsto> SBool True)"

definition off_store :: store where
  "off_store = Map.empty(FOCUS_MODE_KEY \<mapsto> SBool False)"

subsection \<open>Structural lemmas\<close>

lemma set_from_set [simp]: "set (set_from acc xs) = set acc \<union> set xs"
  by (induction acc xs rule: set_from.induct) auto

lemma set_from_distinct: "distinct acc \<Longrightarrow> distinct (set_from acc xs)"
  by (induction acc xs rule: set_from.induct) auto

lemma tags_distinct [simp]:
  "SECTION_TAG \<notin> set VIDEO_ITEM_SELECTORS" "PLAYLIST_ENTRY_TAG \<notin> set VIDEO_ITEM_SELECTORS"
  "SECTION_TAG \<noteq> PLAYLIST_ENTRY_TAG"
  by (simp_all add: SECTION_TAG_def PLAYLIST_ENTRY_TAG_def VIDEO_ITEM_SELECTORS_def js_def)

lemma classify_node_cases: "classify_node cfg n = hideNode n \<or> classify_node cfg n = showNode n"
  by (simp add: classify_node_def split: prod.splits)

lemma item_step_cases: "item_step cfg n = hideNode n \<or> item_step cfg n = showNode n"
  using classify_node_cases by (simp add: item_step_def)

lemma section_step_cases: "section_step cfg n = hideNode n \<or> section_step cfg n = n"
  by (simp add: section_step_def)

lemma step_frame [simp]:
  "nid (classify_node cfg n) = nid n" "tag (classify_node cfg n) = tag n"
  "nid (item_step cfg n) = nid n" "tag (item_step cfg n) = tag n"
  "nid (section_step cfg n) = nid n" "tag (section_step cfg n) = tag n"
  using classify_node_cases [of cfg n] item_step_cases [of cfg n] section_step_cases [of cfg n]
  by auto

lemma set_query_all: "set (query_all p t) = nid ` {n \<in> set (nodes p). tag n = t}"
  by (simp add: query_all_def set_ids_where)

lemma item_ids:
  assumes "wf_page p"
  shows "distinct (set_from [] (concat (map (query_all p) VIDEO_ITEM_SELECTORS)))"
    and "set (set_from [] (concat (map (query_all p) VIDEO_ITEM_SELECTORS)))
         = nid ` {n \<in> set (nodes p). tag n \<in> set VIDEO_ITEM_SELECTORS}"
proof -
  show "distinct (set_from [] (concat (map (query_all p) VIDEO_ITEM_SELECTORS)))"
    by (simp add: set_from_distinct)
  have "(\<Union>a \<in> set VIDEO_ITEM_SELECTORS. set (query_all p a))
        = nid ` {n \<in> set (nodes p). tag n \<in> set VIDEO_ITEM_SELECTORS}"
    by (simp only: set_query_all) blast
  then show "set (set_from [] (concat (map (query_all p) VIDEO_ITEM_SELECTORS)))
         = nid ` {n \<in> set (nodes p). tag n \<in> set VIDEO_ITEM_SELECTORS}"
    by simp
qed

lemma process_items_eq:
  "wf_page p \<Longrightarrow> process_items cfg p
     = p\<lparr>nodes := map (\<lambda>n. if tag n \<in> set VIDEO_ITEM_SELECTORS then item_step cfg n else n) (nodes p)\<rparr>"
  unfolding process_items_def
  by (rule fold_upd_node_where [OF _ item_ids(1) item_ids(2)]) simp_all

lemma process_sections_eq:
  "wf_page p \<Longrightarrow> process_sections cfg p
     = p\<lparr>nodes := map (\<lambda>n. if tag n = SECTION_TAG then section_step cfg n else n) (nodes p)\<rparr>"
  unfolding process_sections_def query_all_def
  by (rule fold_upd_node_where) (simp_all add: distinct_ids_where set_ids_where)

lemma process_playlist_eq:
  "wf_page p \<Longrightarrow> process_playlist cfg p
     = p\<lparr>nodes := map (\<lambda>n. if tag n = PLAYLIST_ENTRY_TAG \<and> str_includes (pathname p) (js ''/playlist'')
                           then classify_node cfg n else n) (nodes p)\<rparr>"
proof (cases "str_includes (pathname p) (js ''/playlist'')")
  case True
  assume wf: "wf_page p"
  have "fold (\<lambda>i. upd_node i (classify_node cfg)) (query_all p PLAYLIST_ENTRY_TAG) p
        = p\<lparr>nodes := map (\<lambda>n. if tag n = PLAYLIST_ENTRY_TAG then classify_node cfg n else n)
                             (nodes p)\<rparr>"
    unfolding query_all_def
    by (rule fold_upd_node_where) (simp_all add: wf distinct_ids_where set_ids_where)
  with True show ?thesis by (simp add: process_playlist_def)
next
  case False
  then show ?thesis by (simp add: process_playlist_def)
qed

lemma process_watch_nodes [simp]: "nodes (process_watch cfg p) = nodes p"
  by (simp add: process_watch_def Let_def)

lemma item_step_idem [simp]: "item_step cfg (item_step cfg n) = item_step cfg n"
  by (auto simp: item_step_def classify_node_def is_short_form_def item_link_def split: prod.splits)

lemma classify_node_idem [simp]: "classify_node cfg (classify_node cfg n) = classify_node cfg n"
  by (auto simp: classify_node_def split: prod.splits)

lemma section_header_frame [simp]:
  "section_header (hideNode n) = section_header n" "section_header (showNode n) = section_header n"
  by (simp_all add: section_header_def)

lemma section_step_idem [simp]: "section_step cfg (section_step cfg n) = section_step cfg n"
  by (simp add: section_step_def section_blocked_def)

lemma node_after_idem [simp]: "node_after cfg path (node_after cfg path n) = node_after cfg path n"
  by (simp add: node_after_def)

lemma node_after_frame [simp]: "nid (node_after cfg path n) = nid n" "tag (node_after cfg path n) = tag n"
  by (simp_all add: node_after_def)

lemma process_watch_frame [simp]:
  "pathname (process_watch cfg p) = pathname p" "dsel (process_watch cfg p) = dsel p"
  by (simp_all add: process_watch_def Let_def)

lemma process_watch_nodes_upd:
  "process_watch cfg (p\<lparr>nodes := ns\<rparr>) = (process_watch cfg p)\<lparr>nodes := ns\<rparr>"
  by (simp add: process_watch_def Let_def showBlockedOverlay_def removeBlockedOverlay_def
      pause_video_def)

text \<open>
  The central equation: on a well-formed page with focus mode on, the pass rewrites
  every node in place by \<open>node_after\<close> and then runs the watch-page step.
\<close>

lemma processVideoItems_on:
  assumes "wf_page p" and "focusMode (read_config st)"
  shows "processVideoItems st p
         = process_watch (read_config st)
             (p\<lparr>nodes := map (node_after (read_config st) (pathname p)) (nodes p)\<rparr>)"
proof -
  let ?c = "read_config st"
  let ?p1 = "process_items ?c p"
  let ?p2 = "process_sections ?c ?p1"
  have wf1: "wf_page ?p1"
    using assms(1) by (simp add: process_items_eq wf_page_map)
  have wf2: "wf_page ?p2"
    using wf1 by (simp add: process_sections_eq wf_page_map)
  have "process_playlist ?c ?p2
        = p\<lparr>nodes := map (node_after ?c (pathname p)) (nodes p)\<rparr>"
    using assms(1) wf1 wf2
    by (simp add: process_playlist_eq process_sections_eq process_items_eq node_after_def
        cong: map_cong)
  then show ?thesis
    using assms(2) by (simp add: processVideoItems_def Let_def)
qed

lemma processVideoItems_off:
  "\<not> focusMode (read_config st) \<Longrightarrow> processVideoItems st p = restore_all p"
  by (simp add: processVideoItems_def)

lemma processVideoItems_wf: "wf_page p \<Longrightarrow> wf_page (processVideoItems st p)"
  by (cases "focusMode (read_config st)")
     (simp_all add: processVideoItems_on processVideoItems_off wf_page_map restore_all_eq
        process_watch_nodes_upd[symmetric] removeBlockedOverlay_def wf_page_def comp_def)

lemma processVideoItems_nodes_on:
  "wf_page p \<Longrightarrow> focusMode (read_config st) \<Longrightarrow>
   nodes (processVideoItems st p) = map (node_after (read_config st) (pathname p)) (nodes p)"
  by (simp add: processVideoItems_on process_watch_nodes_upd)

lemma node_after_marker_ok: "marker_ok n \<Longrightarrow> marker_ok (node_after cfg path n)"
  using item_step_cases [of cfg n] section_step_cases [of cfg n] classify_node_cases [of cfg n]
  by (auto simp: node_after_def)

lemma read_config_demo [simp]:
  "read_config focus_store =
     \<lparr>focusMode = True, blockShorts = True, allowKeywords = DEFAULT_ALLOW_KEYWORDS,
      channelWhitelist = DEFAULT_CHANNEL_WHITELIST\<rparr>"
  "read_config focus_only_store =
     \<lparr>focusMode = True, blockShorts = False, allowKeywords = DEFAULT_ALLOW_KEYWORDS,
      channelWhitelist = DEFAULT_CHANNEL_WHITELIST\<rparr>"
  "read_config off_store =
     \<lparr>focusMode = False, blockShorts = False, allowKeywords = DEFAULT_ALLOW_KEYWORDS,
      channelWhitelist = DEFAULT_CHANNEL_WHITELIST\<rparr>"
  by (simp_all add: read_config_def focus_store_def focus_only_store_def off_store_def config_keys)

lemmas demo_defs = demo_item_def demo_short_def demo_shelf_def demo_page_def
  shorts_page_def watch_page_def

lemmas pass_eval = node_after_def VIDEO_ITEM_SELECTORS_def SECTION_TAG_def PLAYLIST_ENTRY_TAG_def
  item_step_def is_short_form_def item_link_def section_step_def section_blocked_def
  section_header_def node_query_def classify_node_def extractTitleAndChannel_def
  titleSelectors_def channelSelectors_def process_watch_def watch_title_def watch_channel_def
  watchTitleSel_def watchChannelSel_def title_of_elem_def doc_query_def classify_eval

lemma wf_demo_page [simp]: "wf_page demo_page"
  by (simp add: wf_page_def demo_defs)

lemma demo_page_after:
  "map (node_after (read_config focus_store) (pathname demo_page)) (nodes demo_page)
   = [hideNode demo_item, hideNode demo_short, hideNode demo_shelf]"
  by (simp add: pass_eval demo_defs)

subsection \<open>Properties of the pass\<close>

text \<open>A second pass with the same configuration changes nothing (shared by C11 and the event model).\<close>

lemma processVideoItems_idem:
  assumes "wf_page p"
  shows "processVideoItems st (processVideoItems st p) = processVideoItems st p"
proof (cases "focusMode (read_config st)")
  case True
  let ?c = "read_config st"
  let ?m = "map (node_after ?c (pathname p)) (nodes p)"
  let ?q = "processVideoItems st p"
  have q: "?q = process_watch ?c (p\<lparr>nodes := ?m\<rparr>)"
    using assms True by (rule processVideoItems_on)
  have wfq: "wf_page ?q" using assms by (rule processVideoItems_wf)
  have "map (node_after ?c (pathname ?q)) (nodes ?q) = nodes ?q"
    by (simp add: q)
  then have "?q\<lparr>nodes := map (node_after ?c (pathname ?q)) (nodes ?q)\<rparr> = ?q"
    by simp
  then have "processVideoItems st ?q = process_watch ?c ?q"
    using processVideoItems_on [OF wfq True] by simp
  also have "\<dots> = ?q"
    by (auto simp: q process_watch_def Let_def)
  finally show ?thesis .
next
  case False
  then show ?thesis by (simp add: processVideoItems_off restore_all_idem)
qed

text \<open>
  C9. Refinement: on a page whose nodes have distinct identities, a pass with focus
  mode on leaves every node as the effect its tag selects would (\<open>node_after\<close>):
  listing items by \<open>item_step\<close>, shelves by \<open>section_step\<close>, playlist entries on a
  playlist page by \<open>classify_node\<close>, all other nodes untouched. The three loops over
  \<open>querySelectorAll\<close> results, with the deduplication, are this in-place map.
\<close>

theorem pass_is_pointwise:
  assumes "wf_page p" and "focusMode (read_config st)"
  shows "nodes (processVideoItems st p) = map (node_after (read_config st) (pathname p)) (nodes p)"
  using assms by (simp add: processVideoItems_on process_watch_nodes_upd)

theorem pass_is_pointwise_witness:
  "wf_page demo_page \<and> focusMode (read_config focus_store)
   \<and> nodes (processVideoItems focus_store demo_page)
       = [hideNode demo_item, hideNode demo_short, hideNode demo_shelf]"
proof -
  have h1: "wf_page demo_page" by simp
  have h2: "focusMode (read_config focus_store)" by simp
  show ?thesis
    using h1 h2 pass_is_pointwise [OF h1 h2] demo_page_after by simp
qed

text \<open>
  C10. Marker invariant: if every node carrying \<open>data-focusflow-hidden\<close> is hidden
  before a pass, the same holds after it, with focus mode on or off. No node is ever
  left marked but visible.
\<close>

theorem pass_preserves_marker_inv:
  assumes "wf_page p" and "marker_inv p"
  shows "marker_inv (processVideoItems st p)"
proof (cases "focusMode (read_config st)")
  case True
  then show ?thesis
    using assms by (simp add: processVideoItems_nodes_on marker_inv_def node_after_marker_ok)
next
  case False
  then show ?thesis
    by (simp add: processVideoItems_off restore_all_eq marker_inv_def)
qed

theorem pass_preserves_marker_inv_witness:
  "wf_page demo_page \<and> marker_inv demo_page
   \<and> marker_inv (processVideoItems focus_store demo_page)"
proof -
  have h1: "wf_page demo_page" by simp
  have h2: "marker_inv demo_page" by (simp add: marker_inv_def marker_ok_def demo_defs)
  show ?thesis using h1 h2 pass_preserves_marker_inv [OF h1 h2] by simp
qed

text \<open>
  C11. Idempotence: with the configuration and the page unchanged, a second pass
  changes nothing: it leaves the same nodes hidden and shown, the same overlay and the
  same video state.
\<close>

theorem pass_idempotent:
  assumes "wf_page p"
  shows "processVideoItems st (processVideoItems st p) = processVideoItems st p"
  using assms by (rule processVideoItems_idem)

theorem pass_idempotent_witness:
  "wf_page demo_page
   \<and> processVideoItems focus_store (processVideoItems focus_store demo_page)
     = processVideoItems focus_store demo_page"
  using pass_idempotent [OF wf_demo_page, of focus_store] by simp

text \<open>
  C12. Restore completeness: a pass with focus mode off (and the \<open>focusflow:disabled\<close>
  handler, which runs the same code) makes every marked node visible and unmarked,
  leaves every unmarked node exactly as it was, and removes the overlay.
\<close>

theorem restore_complete:
  assumes "\<not> focusMode (read_config st)"
  shows "nodes (processVideoItems st p)
           = map (\<lambda>n. if ff_hidden n then n\<lparr>display := [], ff_hidden := False\<rparr> else n) (nodes p)
         \<and> \<not> overlay (processVideoItems st p)"
  using assms by (simp add: processVideoItems_off restore_all_eq showNode_def)

theorem restore_complete_witness:
  "\<not> focusMode (read_config off_store)
   \<and> nodes (processVideoItems off_store (demo_page\<lparr>nodes := [hideNode demo_item, demo_shelf],
                                                 overlay := True\<rparr>))
       = [demo_item\<lparr>display := [], ff_hidden := False\<rparr>, demo_shelf]
   \<and> \<not> overlay (processVideoItems off_store (demo_page\<lparr>nodes := [hideNode demo_item, demo_shelf],
                                                     overlay := True\<rparr>))"
proof -
  have h: "\<not> focusMode (read_config off_store)" by simp
  show ?thesis
    using h restore_complete [OF h, of "demo_page\<lparr>nodes := [hideNode demo_item, demo_shelf],
                                                 overlay := True\<rparr>"]
    by (simp add: demo_defs hideNode_def)
qed

lemma node_after_in_pass:
  assumes "wf_page p" and "focusMode (read_config st)" and "n \<in> set (nodes p)"
  shows "node_after (read_config st) (pathname p) n \<in> set (nodes (processVideoItems st p))"
  using assms by (simp add: processVideoItems_nodes_on)

lemma processVideoItems_watch:
  assumes "wf_page p" and "focusMode (read_config st)"
  shows "overlay (processVideoItems st p) = overlay (process_watch (read_config st) p)"
    and "video (processVideoItems st p) = video (process_watch (read_config st) p)"
  using assms by (simp_all add: processVideoItems_on process_watch_nodes_upd)

text \<open>
  C13. Short-form blocking: with focus mode and the short-form flag on, a listing item
  whose thumbnail link contains \<open>/shorts/\<close> is hidden, whatever its title and channel
  would give (the witness is an item titled "Calculus lecture 1").
\<close>

theorem shorts_item_hidden:
  assumes "wf_page p" and "focusMode (read_config st)" and "blockShorts (read_config st)"
    and "n \<in> set (nodes p)" and "tag n \<in> set VIDEO_ITEM_SELECTORS"
    and "str_includes (item_link n) (js ''/shorts/'')"
  shows "hideNode n \<in> set (nodes (processVideoItems st p))"
proof -
  have "node_after (read_config st) (pathname p) n = hideNode n"
    using assms(3,5,6) by (simp add: node_after_def item_step_def is_short_form_def)
  then show ?thesis using node_after_in_pass [OF assms(1,2,4)] by simp
qed

theorem shorts_item_hidden_witness:
  "wf_page demo_page \<and> focusMode (read_config focus_store) \<and> blockShorts (read_config focus_store)
   \<and> demo_short \<in> set (nodes demo_page) \<and> tag demo_short \<in> set VIDEO_ITEM_SELECTORS
   \<and> str_includes (item_link demo_short) (js ''/shorts/'')
   \<and> isEducationalByText (fst (extractTitleAndChannel demo_short))
       (snd (extractTitleAndChannel demo_short)) DEFAULT_ALLOW_KEYWORDS DEFAULT_CHANNEL_WHITELIST
   \<and> hideNode demo_short \<in> set (nodes (processVideoItems focus_store demo_page))"
proof -
  have h1: "wf_page demo_page" and h2: "focusMode (read_config focus_store)"
    and h3: "blockShorts (read_config focus_store)" by simp_all
  have h4: "demo_short \<in> set (nodes demo_page)" by (simp add: demo_page_def)
  have h5: "tag demo_short \<in> set VIDEO_ITEM_SELECTORS"
    by (simp add: demo_short_def VIDEO_ITEM_SELECTORS_def)
  have h6: "str_includes (item_link demo_short) (js ''/shorts/'')"
    by (simp add: demo_short_def item_link_def js_def)
  have h7: "isEducationalByText (fst (extractTitleAndChannel demo_short))
       (snd (extractTitleAndChannel demo_short)) DEFAULT_ALLOW_KEYWORDS DEFAULT_CHANNEL_WHITELIST"
    by (simp add: pass_eval demo_short_def)
  show ?thesis
    using h1 h2 h3 h4 h5 h6 h7 shorts_item_hidden [OF h1 h2 h3 h4 h5 h6] by blast
qed

text \<open>
  C14. Item verdict: with focus mode on, a listing item that is not blocked as short-form
  is hidden exactly when its extracted title and channel are not educational, and
  shown (its own marker cleared) otherwise.
\<close>

theorem item_verdict:
  assumes "wf_page p" and "focusMode (read_config st)"
    and "n \<in> set (nodes p)" and "tag n \<in> set VIDEO_ITEM_SELECTORS"
    and "\<not> (blockShorts (read_config st) \<and> is_short_form n)"
  shows "(if isEducationalByText (fst (extractTitleAndChannel n)) (snd (extractTitleAndChannel n))
              (allowKeywords (read_config st)) (channelWhitelist (read_config st))
          then showNode n else hideNode n) \<in> set (nodes (processVideoItems st p))"
proof -
  have "node_after (read_config st) (pathname p) n
        = (if isEducationalByText (fst (extractTitleAndChannel n)) (snd (extractTitleAndChannel n))
              (allowKeywords (read_config st)) (channelWhitelist (read_config st))
           then showNode n else hideNode n)"
    using assms(4,5) by (auto simp: node_after_def item_step_def classify_node_def split: prod.splits)
  then show ?thesis using node_after_in_pass [OF assms(1-3)] by simp
qed

theorem item_verdict_witness:
  "wf_page demo_page \<and> focusMode (read_config focus_store)
   \<and> demo_item \<in> set (nodes demo_page) \<and> tag demo_item \<in> set VIDEO_ITEM_SELECTORS
   \<and> \<not> (blockShorts (read_config focus_store) \<and> is_short_form demo_item)
   \<and> hideNode demo_item \<in> set (nodes (processVideoItems focus_store demo_page))"
proof -
  have h1: "wf_page demo_page" and h2: "focusMode (read_config focus_store)" by simp_all
  have h3: "demo_item \<in> set (nodes demo_page)" by (simp add: demo_page_def)
  have h4: "tag demo_item \<in> set VIDEO_ITEM_SELECTORS"
    by (simp add: demo_item_def VIDEO_ITEM_SELECTORS_def)
  have h5: "\<not> (blockShorts (read_config focus_store) \<and> is_short_form demo_item)"
    by (simp add: demo_item_def is_short_form_def item_link_def js_def js_lower_def js_lower_unit_def)
  have h6: "\<not> isEducationalByText (fst (extractTitleAndChannel demo_item))
      (snd (extractTitleAndChannel demo_item)) DEFAULT_ALLOW_KEYWORDS DEFAULT_CHANNEL_WHITELIST"
    by (simp add: pass_eval demo_item_def)
  show ?thesis
    using h1 h2 h3 h4 h5 h6 item_verdict [OF h1 h2 h3 h4 h5] by simp
qed

text \<open>
  C15. Shorts page, end to end: with focus mode and the short-form flag on, on a
  \<open>/shorts\<close> page the pass mounts the overlay and pauses the video, and the result does
  not depend on the title and channel the page shows: the classifier is not consulted.
\<close>

theorem shorts_page_blocked:
  assumes "wf_page p" and "focusMode (read_config st)" and "blockShorts (read_config st)"
    and "str_includes (pathname p) (js ''/shorts'')"
  shows "overlay (processVideoItems st p)
         \<and> video (processVideoItems st p) = map_option (\<lambda>_. Paused) (video p)
         \<and> (\<forall>ds. processVideoItems st (p\<lparr>dsel := ds\<rparr>) = (processVideoItems st p)\<lparr>dsel := ds\<rparr>)"
proof -
  let ?r = "js ''Shorts are blocked by FocusFlow''"
  have sh: "processVideoItems st q = pause_video (showBlockedOverlay ?r
              (q\<lparr>nodes := map (node_after (read_config st) (pathname q)) (nodes q)\<rparr>))"
    if "wf_page q" and "pathname q = pathname p" for q
  proof -
    let ?m = "map (node_after (read_config st) (pathname q)) (nodes q)"
    have "process_watch (read_config st) (q\<lparr>nodes := ?m\<rparr>)
          = pause_video (showBlockedOverlay ?r (q\<lparr>nodes := ?m\<rparr>))"
      using assms(3,4) that(2) by (simp add: process_watch_def)
    then show ?thesis using processVideoItems_on [OF that(1) assms(2)] by simp
  qed
  have p0: "processVideoItems st p = pause_video (showBlockedOverlay ?r
              (p\<lparr>nodes := map (node_after (read_config st) (pathname p)) (nodes p)\<rparr>))"
    using sh [OF assms(1)] by simp
  have "processVideoItems st (p\<lparr>dsel := ds\<rparr>) = (processVideoItems st p)\<lparr>dsel := ds\<rparr>" for ds
  proof -
    have wf': "wf_page (p\<lparr>dsel := ds\<rparr>)" using assms(1) by (simp add: wf_page_def)
    have "processVideoItems st (p\<lparr>dsel := ds\<rparr>)
          = pause_video (showBlockedOverlay ?r
              ((p\<lparr>nodes := map (node_after (read_config st) (pathname p)) (nodes p)\<rparr>)\<lparr>dsel := ds\<rparr>))"
      using sh [OF wf'] by simp
    then show ?thesis by (simp only: pause_show_dsel p0)
  qed
  moreover have "overlay (processVideoItems st p)" by (simp add: p0)
  moreover have "video (processVideoItems st p) = map_option (\<lambda>_. Paused) (video p)"
    by (simp add: p0 option.map_comp comp_def)
  ultimately show ?thesis by blast
qed

theorem shorts_page_blocked_witness:
  "wf_page shorts_page \<and> focusMode (read_config focus_store) \<and> blockShorts (read_config focus_store)
   \<and> str_includes (pathname shorts_page) (js ''/shorts'')
   \<and> overlay (processVideoItems focus_store shorts_page)
   \<and> video (processVideoItems focus_store shorts_page) = Some Paused"
proof -
  have h1: "wf_page shorts_page" by (simp add: wf_page_def shorts_page_def)
  have h2: "focusMode (read_config focus_store)" and h3: "blockShorts (read_config focus_store)"
    by simp_all
  have h4: "str_includes (pathname shorts_page) (js ''/shorts'')"
    by (simp add: shorts_page_def js_def)
  from shorts_page_blocked [OF h1 h2 h3 h4]
  have o: "overlay (processVideoItems focus_store shorts_page)"
    and v: "video (processVideoItems focus_store shorts_page) = map_option (\<lambda>_. Paused) (video shorts_page)"
    by blast+
  have "video shorts_page = Some Playing" by (simp add: shorts_page_def)
  with h1 h2 h3 h4 o v show ?thesis by simp
qed

text \<open>
  C16. Watch page verdict: on a \<open>/watch\<close> page that is not blocked as short-form, the
  overlay is mounted after the pass exactly when the page's title and channel are not
  educational and the page has a video element, and the video is paused exactly when
  they are not educational.
\<close>

theorem watch_verdict:
  assumes "wf_page p" and "focusMode (read_config st)"
    and "str_includes (pathname p) (js ''/watch'')"
    and "\<not> (blockShorts (read_config st) \<and> str_includes (pathname p) (js ''/shorts''))"
  shows "overlay (processVideoItems st p)
           = (\<not> isEducationalByText (watch_title p) (watch_channel p)
                  (allowKeywords (read_config st)) (channelWhitelist (read_config st))
              \<and> video p \<noteq> None)
         \<and> video (processVideoItems st p)
           = (if isEducationalByText (watch_title p) (watch_channel p)
                  (allowKeywords (read_config st)) (channelWhitelist (read_config st))
              then video p else map_option (\<lambda>_. Paused) (video p))"
  using assms by (auto simp: processVideoItems_watch process_watch_def Let_def)

theorem watch_verdict_witness:
  "wf_page watch_page \<and> focusMode (read_config focus_store)
   \<and> str_includes (pathname watch_page) (js ''/watch'')
   \<and> \<not> (blockShorts (read_config focus_store) \<and> str_includes (pathname watch_page) (js ''/shorts''))
   \<and> overlay (processVideoItems focus_store watch_page)
   \<and> video (processVideoItems focus_store watch_page) = Some Paused"
proof -
  have h1: "wf_page watch_page" by (simp add: wf_page_def watch_page_def)
  have h2: "focusMode (read_config focus_store)" by simp
  have h3: "str_includes (pathname watch_page) (js ''/watch'')" by (simp add: watch_page_def js_def)
  have h4: "\<not> (blockShorts (read_config focus_store) \<and> str_includes (pathname watch_page) (js ''/shorts''))"
    by (simp add: watch_page_def js_def)
  have h5: "\<not> isEducationalByText (watch_title watch_page) (watch_channel watch_page)
               DEFAULT_ALLOW_KEYWORDS DEFAULT_CHANNEL_WHITELIST"
    by (simp add: pass_eval watch_page_def)
  show ?thesis
    using h1 h2 h3 h4 h5 watch_verdict [OF h1 h2 h3 h4] by (simp add: watch_page_def)
qed

text \<open>
  C17. A watch page without a \<open>video\<close> element is never blocked: the pass removes the
  overlay even when the page's title and channel are not educational (line 238 tests
  \<open>!allowed && v\<close> and sends everything else to \<open>removeBlockedOverlay\<close>).
\<close>

theorem watch_without_video_unblocked:
  assumes "wf_page p" and "focusMode (read_config st)"
    and "str_includes (pathname p) (js ''/watch'')"
    and "\<not> (blockShorts (read_config st) \<and> str_includes (pathname p) (js ''/shorts''))"
    and "video p = None"
  shows "\<not> overlay (processVideoItems st p)"
  using assms by (auto simp: processVideoItems_watch process_watch_def Let_def)

theorem watch_without_video_unblocked_witness:
  "wf_page (watch_page\<lparr>video := None, overlay := True\<rparr>) \<and> focusMode (read_config focus_store)
   \<and> str_includes (pathname (watch_page\<lparr>video := None, overlay := True\<rparr>)) (js ''/watch'')
   \<and> \<not> (blockShorts (read_config focus_store)
         \<and> str_includes (pathname (watch_page\<lparr>video := None, overlay := True\<rparr>)) (js ''/shorts''))
   \<and> video (watch_page\<lparr>video := None, overlay := True\<rparr>) = None
   \<and> \<not> isEducationalByText (watch_title watch_page) (watch_channel watch_page)
        DEFAULT_ALLOW_KEYWORDS DEFAULT_CHANNEL_WHITELIST
   \<and> \<not> overlay (processVideoItems focus_store (watch_page\<lparr>video := None, overlay := True\<rparr>))"
proof -
  let ?w = "watch_page\<lparr>video := None, overlay := True\<rparr>"
  have h1: "wf_page ?w" by (simp add: wf_page_def watch_page_def)
  have h2: "focusMode (read_config focus_store)" by simp
  have h3: "str_includes (pathname ?w) (js ''/watch'')" by (simp add: watch_page_def js_def)
  have h4: "\<not> (blockShorts (read_config focus_store) \<and> str_includes (pathname ?w) (js ''/shorts''))"
    by (simp add: watch_page_def js_def)
  have h5: "video ?w = None" by simp
  have h6: "\<not> isEducationalByText (watch_title watch_page) (watch_channel watch_page)
               DEFAULT_ALLOW_KEYWORDS DEFAULT_CHANNEL_WHITELIST"
    by (simp add: pass_eval watch_page_def)
  show ?thesis
    using h1 h2 h3 h4 h5 h6 watch_without_video_unblocked [OF h1 h2 h3 h4 h5] by blast
qed

text \<open>
  C18. Shelves: with focus mode on, a shelf whose lower-cased header contains
  "shorts" or "trending" is hidden, whether the short-form flag is on or not.
\<close>

theorem shelf_hidden:
  assumes "wf_page p" and "focusMode (read_config st)"
    and "n \<in> set (nodes p)" and "tag n = SECTION_TAG"
    and "str_includes (section_header n) (js ''shorts'') \<or> str_includes (section_header n) (js ''trending'')"
  shows "hideNode n \<in> set (nodes (processVideoItems st p))"
proof -
  have "node_after (read_config st) (pathname p) n = hideNode n"
    using assms(4,5) by (auto simp: node_after_def section_step_def section_blocked_def)
  then show ?thesis using node_after_in_pass [OF assms(1-3)] by simp
qed

theorem shelf_hidden_witness:
  "wf_page demo_page \<and> focusMode (read_config focus_only_store) \<and> \<not> blockShorts (read_config focus_only_store)
   \<and> demo_shelf \<in> set (nodes demo_page) \<and> tag demo_shelf = SECTION_TAG
   \<and> str_includes (section_header demo_shelf) (js ''trending'')
   \<and> hideNode demo_shelf \<in> set (nodes (processVideoItems focus_only_store demo_page))"
proof -
  have h1: "wf_page demo_page" and h2: "focusMode (read_config focus_only_store)" by simp_all
  have h3: "demo_shelf \<in> set (nodes demo_page)" by (simp add: demo_page_def)
  have h4: "tag demo_shelf = SECTION_TAG" by (simp add: demo_shelf_def SECTION_TAG_def)
  have h5: "str_includes (section_header demo_shelf) (js ''trending'')"
    by (simp add: demo_shelf_def section_header_def node_query_def js_def js_lower_def js_lower_unit_def)
  have "str_includes (section_header demo_shelf) (js ''shorts'')
        \<or> str_includes (section_header demo_shelf) (js ''trending'')" using h5 by blast
  then show ?thesis
    using h1 h2 h3 h4 h5 shelf_hidden [OF h1 h2 h3 h4] by simp
qed

end
