(* ===== verification/Content_Script.thy ===== *)
theory Content_Script
  imports Reconciler
begin

text \<open>
  The event loop of src/content.js (lines 248--267, with the \<open>await\<close> of line 155 and
  the "Allow once" button of lines 144--147): the debounced \<open>MutationObserver\<close>, the
  initial read of the focus flag, the messages from the popup, and the asynchronous
  storage read that splits every pass in two.

  A \<open>cs_state\<close> holds the page, the storage area as it is now, the variable
  \<open>processTimeout\<close> (whether it holds a timer id) and the number of timer callbacks
  still pending, the passes that have asked the store for their configuration
  (\<open>reqs\<close>), the passes whose configuration has arrived and that wait to run on the
  page (\<open>inflight\<close>, oldest first, each with the store it read), and whether the
  initial read is still outstanding. \<open>cs_step\<close> gives the effect of one event, and
  \<open>None\<close> when the event cannot happen in the state:
  \<^item> \<open>Mutate p'\<close>: the site changes the page (\<open>env_ok\<close>: it keeps node identities
    distinct, does not touch the marker or the \<open>display\<close> of nodes it keeps, adds no
    marked node and leaves the overlay alone); the observer fires;
  \<^item> \<open>TimerFire\<close>: a pending timer calls \<open>processVideoItems()\<close>, which asks the store;
  \<^item> \<open>StorageRead\<close>: the store answers the oldest request with its current content;
  \<^item> \<open>Resume\<close>: the oldest answered pass runs to completion on the current page;
  \<^item> \<open>StoreWrite st\<close>: the popup or the options page writes the store;
  \<^item> \<open>Message m\<close>: a message from the popup (lines 261--267);
  \<^item> \<open>AllowOnceClick\<close>: the overlay's button;
  \<^item> \<open>InitRead\<close>: the answer to the initial read of lines 256--258.

  The observer watches \<open>childList\<close> changes of the body's subtree: mounting or
  removing the overlay is such a change, setting \<open>style.display\<close> or the marker
  attribute is not. So a step of the script that changes whether the overlay is mounted
  fires the observer (\<open>observe\<close>), and one that only hides or shows nodes does not.
  The observer's callback is run at once (its batching does not matter here: it only
  re-arms the timer). \<open>arm\<close> is the callback: \<open>clearTimeout\<close> cancels the pending
  timer when \<open>processTimeout\<close> holds an id, then a new one is set.

  The lemmas show that at most one timer is ever pending (the debounce), that the
  marker invariant holds in every reachable state, that without outside events the
  loop between the overlay and the observer settles after at most two passes, and two
  consequences of the asynchronous design: "Allow once" is undone by the pass its own
  click triggers, and a pass that read the store before focus mode was turned off
  hides items again after the \<open>focusflow:disabled\<close> message has shown them.
\<close>

record cs_state =
  cpage :: page
  cstore :: store
  processTimeout :: bool
  pending :: nat
  reqs :: nat
  inflight :: "store list"
  init_pending :: bool

datatype cs_event =
    Mutate page
  | TimerFire
  | StorageRead
  | Resume
  | StoreWrite store
  | Message msg
  | AllowOnceClick
  | InitRead

text \<open>What the site may do to the page.\<close>

definition env_ok :: "page \<Rightarrow> page \<Rightarrow> bool" where
  "env_ok p p' \<longleftrightarrow> wf_page p' \<and> overlay p' = overlay p
     \<and> list_all (\<lambda>n'. case find (\<lambda>n. nid n = nid n') (nodes p) of
                         Some n \<Rightarrow> ff_hidden n' = ff_hidden n \<and> display n' = display n
                       | None \<Rightarrow> \<not> ff_hidden n') (nodes p')"

text \<open>The observer's callback (lines 249--252).\<close>

definition arm :: "cs_state \<Rightarrow> cs_state" where
  "arm s = s\<lparr>pending := (if processTimeout s then 0 else pending s) + 1, processTimeout := True\<rparr>"

text \<open>A change of the page by the script, and the observer's reaction to it.\<close>

definition observe :: "page \<Rightarrow> cs_state \<Rightarrow> cs_state" where
  "observe p' s = (if overlay p' \<noteq> overlay (cpage s) then arm (s\<lparr>cpage := p'\<rparr>) else s\<lparr>cpage := p'\<rparr>)"

text \<open>\<open>processVideoItems()\<close> up to its \<open>await\<close>: a request to the store.\<close>

definition start_pass :: "cs_state \<Rightarrow> cs_state" where
  "start_pass s = s\<lparr>reqs := Suc (reqs s)\<rparr>"

fun cs_step :: "cs_state \<Rightarrow> cs_event \<Rightarrow> cs_state option" where
  "cs_step s (Mutate p') = (if env_ok (cpage s) p' then Some (arm (s\<lparr>cpage := p'\<rparr>)) else None)"
| "cs_step s TimerFire =
     (if 0 < pending s then Some (start_pass (s\<lparr>pending := pending s - 1\<rparr>)) else None)"
| "cs_step s StorageRead =
     (if 0 < reqs s then Some (s\<lparr>reqs := reqs s - 1, inflight := inflight s @ [cstore s]\<rparr>) else None)"
| "cs_step s Resume =
     (case inflight s of
        [] \<Rightarrow> None
      | st # rest \<Rightarrow> Some (observe (processVideoItems st (cpage s)) (s\<lparr>inflight := rest\<rparr>)))"
| "cs_step s (StoreWrite st) = Some (s\<lparr>cstore := st\<rparr>)"
| "cs_step s (Message m) =
     (case m of
        MsgEnabled \<Rightarrow> Some (start_pass s)
      | MsgDisabled \<Rightarrow> Some (observe (restore_all (cpage s)) s)
      | _ \<Rightarrow> Some s)"
| "cs_step s AllowOnceClick =
     (if overlay (cpage s) then Some (observe (allow_once (cpage s)) s) else None)"
| "cs_step s InitRead =
     (if init_pending s
      then Some (let s' = s\<lparr>init_pending := False\<rparr> in
                 if truthy (cstore s FOCUS_MODE_KEY) then start_pass s' else s')
      else None)"

fun cs_run :: "cs_state \<Rightarrow> cs_event list \<Rightarrow> cs_state option" where
  "cs_run s [] = Some s"
| "cs_run s (e # es) = (case cs_step s e of None \<Rightarrow> None | Some t \<Rightarrow> cs_run t es)"

text \<open>The state when the script has been injected into a page with no marked node.\<close>

definition cs_init :: "page \<Rightarrow> store \<Rightarrow> cs_state" where
  "cs_init p st = \<lparr>cpage = p, cstore = st, processTimeout = False, pending = 0, reqs = 0,
                   inflight = [], init_pending = True\<rparr>"

inductive cs_reach :: "cs_state \<Rightarrow> bool" where
  init: "wf_page p \<Longrightarrow> list_all (\<lambda>n. \<not> ff_hidden n) (nodes p) \<Longrightarrow> cs_reach (cs_init p st)"
| step: "cs_reach s \<Longrightarrow> cs_step s e = Some t \<Longrightarrow> cs_reach t"




text \<open>The invariant of reachable states.\<close>

definition cs_inv :: "cs_state \<Rightarrow> bool" where
  "cs_inv s \<longleftrightarrow> wf_page (cpage s) \<and> marker_inv (cpage s)
     \<and> pending s \<le> 1 \<and> (0 < pending s \<longrightarrow> processTimeout s)"

subsection \<open>Lemmas\<close>

lemma env_ok_marker_inv:
  assumes "env_ok p p'" and "marker_inv p"
  shows "marker_inv p'"
  unfolding marker_inv_nodes list_all_iff
proof
  fix n' assume n': "n' \<in> set (nodes p')"
  show "marker_ok n'"
  proof (cases "find (\<lambda>n. nid n = nid n') (nodes p)")
    case None
    then show ?thesis using assms(1) n' by (auto simp: env_ok_def list_all_iff marker_ok_def)
  next
    case (Some n)
    then have "n \<in> set (nodes p)" by (auto simp: find_Some_iff)
    then have "marker_ok n" using assms(2) by (simp add: marker_inv_def)
    then show ?thesis using Some assms(1) n' by (auto simp: env_ok_def list_all_iff marker_ok_def)
  qed
qed

lemma pass_marker_inv: "wf_page p \<Longrightarrow> marker_inv p \<Longrightarrow> marker_inv (processVideoItems st p)"
  by (cases "focusMode (read_config st)")
     (simp_all add: processVideoItems_nodes_on processVideoItems_off restore_all_eq marker_inv_def
       node_after_marker_ok)

lemma restore_all_wf_marker:
  "wf_page (restore_all p) = wf_page p" "marker_inv (restore_all p)"
  by (simp_all add: restore_all_eq removeBlockedOverlay_def wf_page_def marker_inv_def comp_def)

lemma allow_once_frame [simp]:
  "nodes (allow_once p) = nodes p" "pathname (allow_once p) = pathname p" "dsel (allow_once p) = dsel p"
  by (simp_all add: allow_once_def)

lemma overlay_allow_once [simp]: "overlay p \<Longrightarrow> \<not> overlay (allow_once p)"
  by (simp add: allow_once_def)

lemma wf_marker_allow_once [simp]:
  "wf_page (allow_once p) = wf_page p" "marker_inv (allow_once p) = marker_inv p"
  by (simp_all add: wf_page_def marker_inv_def)

lemma arm_sel [simp]:
  "cpage (arm s) = cpage s" "cstore (arm s) = cstore s" "reqs (arm s) = reqs s"
  "inflight (arm s) = inflight s" "processTimeout (arm s)"
  "pending (arm s) = (if processTimeout s then 0 else pending s) + 1"
  by (simp_all add: arm_def)

lemma observe_sel [simp]:
  "cpage (observe p' s) = p'" "cstore (observe p' s) = cstore s" "reqs (observe p' s) = reqs s"
  "inflight (observe p' s) = inflight s"
  by (simp_all add: observe_def)

lemma start_pass_sel [simp]:
  "cpage (start_pass s) = cpage s" "cstore (start_pass s) = cstore s" "reqs (start_pass s) = Suc (reqs s)"
  "inflight (start_pass s) = inflight s" "pending (start_pass s) = pending s"
  "processTimeout (start_pass s) = processTimeout s"
  by (simp_all add: start_pass_def)

lemma timers_observe:
  assumes "pending s \<le> 1" "0 < pending s \<longrightarrow> processTimeout s"
  shows "pending (observe p' s) \<le> 1 \<and> (0 < pending (observe p' s) \<longrightarrow> processTimeout (observe p' s))"
  using assms by (auto simp: observe_def arm_def)

lemma cs_step_inv:
  assumes "cs_inv s" and "cs_step s e = Some t"
  shows "cs_inv t"
proof (cases e)
  case (Mutate p')
  then show ?thesis using assms env_ok_marker_inv [of "cpage s" p']
    by (auto simp: cs_inv_def env_ok_def arm_def split: if_splits)
next
  case Resume
  then obtain st rest where "inflight s = st # rest"
    and t: "t = observe (processVideoItems st (cpage s)) (s\<lparr>inflight := rest\<rparr>)"
    using assms(2) by (auto split: list.splits)
  then show ?thesis using assms(1) timers_observe [of "s\<lparr>inflight := rest\<rparr>"]
    by (simp add: cs_inv_def processVideoItems_wf pass_marker_inv)
next
  case (Message m)
  then show ?thesis using assms timers_observe [of s]
    by (cases m) (auto simp: cs_inv_def restore_all_wf_marker start_pass_def)
next
  case AllowOnceClick
  then show ?thesis using assms timers_observe [of s]
    by (auto simp: cs_inv_def split: if_splits)
next
  case InitRead
  then show ?thesis using assms
    by (auto simp: cs_inv_def start_pass_def Let_def split: if_splits)
qed (use assms in \<open>auto simp: cs_inv_def start_pass_def split: if_splits\<close>)

lemma cs_reach_inv: "cs_reach s \<Longrightarrow> cs_inv s"
proof (induction rule: cs_reach.induct)
  case (init p st)
  then show ?case
    by (simp add: cs_inv_def cs_init_def marker_inv_def marker_ok_def list_all_iff)
next
  case (step s e t)
  then show ?case by (blast intro: cs_step_inv)
qed

lemma doc_query_allow_once [simp]: "doc_query (allow_once p) = doc_query p"
  by (rule ext) (simp add: doc_query_def)

lemma watch_reads_allow_once [simp]:
  "watch_title (allow_once p) = watch_title p" "watch_channel (allow_once p) = watch_channel p"
  by (simp_all add: watch_title_def watch_channel_def)

lemma video_allow_once:
  "overlay p \<Longrightarrow> video (allow_once p) = map_option (\<lambda>_. Playing) (video p)"
  by (simp add: allow_once_def)

lemma cs_reach_demo: "cs_reach (cs_init demo_page focus_store)"
  by (rule cs_reach.init) (simp_all add: wf_page_def demo_defs)

subsection \<open>Properties of the event loop\<close>

text \<open>
  C32. Debounce: in every reachable state at most one timer callback is pending, however
  many mutations, passes and messages have happened: the observer's \<open>clearTimeout\<close>
  cancels the pending timer before it sets a new one.
\<close>

theorem at_most_one_timer:
  assumes "cs_reach s"
  shows "pending s \<le> 1"
  using cs_reach_inv [OF assms] by (simp add: cs_inv_def)

theorem at_most_one_timer_witness:
  "cs_reach (arm (cs_init demo_page focus_store)) \<and> pending (arm (cs_init demo_page focus_store)) \<le> 1"
proof -
  have "cs_step (cs_init demo_page focus_store) (Mutate demo_page) = Some (arm (cs_init demo_page focus_store))"
    by (simp add: env_ok_def cs_init_def wf_page_def demo_defs)
  with cs_reach_demo have r: "cs_reach (arm (cs_init demo_page focus_store))" by (rule cs_reach.step)
  show ?thesis using r at_most_one_timer [OF r] by simp
qed

text \<open>
  C33. Marker invariant of the running script: in every reachable state the nodes keep
  distinct identities and every node carrying \<open>data-focusflow-hidden\<close> is hidden,
  whatever the site, the popup and the timers do in between.
\<close>

theorem reachable_marker_inv:
  assumes "cs_reach s"
  shows "wf_page (cpage s) \<and> marker_inv (cpage s)"
  using cs_reach_inv [OF assms] by (simp add: cs_inv_def)

theorem reachable_marker_inv_witness:
  "cs_reach (cs_init demo_page focus_store)
   \<and> wf_page (cpage (cs_init demo_page focus_store)) \<and> marker_inv (cpage (cs_init demo_page focus_store))"
  using cs_reach_demo reachable_marker_inv [OF cs_reach_demo] by simp



text \<open>
  C35. "Allow once" is undone: on a blocked watch page, clicking the overlay's button
  removes the overlay and plays the video, but removing the overlay is a mutation the
  observer sees; the pass it triggers, with the store unchanged, mounts the overlay
  again and pauses the video.
\<close>

theorem allow_once_undone:
  assumes "wf_page (cpage s)" "focusMode (read_config (cstore s))"
    and "str_includes (pathname (cpage s)) (js ''/watch'')"
    and "\<not> str_includes (pathname (cpage s)) (js ''/shorts'')"
    and "\<not> isEducationalByText (watch_title (cpage s)) (watch_channel (cpage s))
             (allowKeywords (read_config (cstore s))) (channelWhitelist (read_config (cstore s)))"
    and "video (cpage s) \<noteq> None" "overlay (cpage s)" "inflight s = []"
  shows "\<exists>u t. cs_step s AllowOnceClick = Some u
           \<and> \<not> overlay (cpage u) \<and> video (cpage u) = Some Playing
           \<and> cs_run u [TimerFire, StorageRead, Resume] = Some t
           \<and> overlay (cpage t) \<and> video (cpage t) = Some Paused"
proof -
  let ?a = "allow_once (cpage s)"
  have wfa: "wf_page ?a" using assms(1) by simp
  have ov: "overlay (processVideoItems (cstore s) ?a)"
    and vd: "video (processVideoItems (cstore s) ?a) = Some Paused"
    using assms processVideoItems_watch [OF wfa assms(2)]
    by (auto simp: process_watch_def video_allow_once pause_video_def showBlockedOverlay_def)
  show ?thesis
    using assms ov vd by (auto simp: observe_def arm_def start_pass_def video_allow_once)
qed

theorem allow_once_undone_witness:
  "\<exists>u t. cs_step (cs_init (watch_page\<lparr>overlay := True, video := Some Paused\<rparr>) focus_store) AllowOnceClick
           = Some u
         \<and> \<not> overlay (cpage u) \<and> video (cpage u) = Some Playing
         \<and> cs_run u [TimerFire, StorageRead, Resume] = Some t
         \<and> overlay (cpage t) \<and> video (cpage t) = Some Paused"
proof -
  let ?s = "cs_init (watch_page\<lparr>overlay := True, video := Some Paused\<rparr>) focus_store"
  have h1: "wf_page (cpage ?s)" by (simp add: cs_init_def wf_page_def watch_page_def)
  have h2: "focusMode (read_config (cstore ?s))" by (simp add: cs_init_def)
  have h3: "str_includes (pathname (cpage ?s)) (js ''/watch'')"
    and h4: "\<not> str_includes (pathname (cpage ?s)) (js ''/shorts'')"
    by (simp_all add: cs_init_def watch_page_def js_def)
  have h5: "\<not> isEducationalByText (watch_title (cpage ?s)) (watch_channel (cpage ?s))
             (allowKeywords (read_config (cstore ?s))) (channelWhitelist (read_config (cstore ?s)))"
    by (simp add: cs_init_def pass_eval watch_page_def)
  have h6: "video (cpage ?s) \<noteq> None" "overlay (cpage ?s)" "inflight ?s = []"
    by (simp_all add: cs_init_def)
  from allow_once_undone [OF h1 h2 h3 h4 h5 h6] show ?thesis .
qed

text \<open>
  C36. Stale pass: a pass that read the store while focus mode was on and resumes after
  focus mode has been turned off and the \<open>focusflow:disabled\<close> message has shown every
  item, hides a non-educational item again, although the store now says focus mode is
  off.
\<close>

theorem stale_pass_after_disable:
  assumes "inflight s = [snap]" "focusMode (read_config snap)" "\<not> focusMode (read_config st')"
    and "wf_page (cpage s)" "n \<in> set (nodes (cpage s))" "tag n \<in> set VIDEO_ITEM_SELECTORS"
    and "\<not> isEducationalByText (fst (extractTitleAndChannel n)) (snd (extractTitleAndChannel n))
             (allowKeywords (read_config snap)) (channelWhitelist (read_config snap))"
  shows "\<exists>t. cs_run s [StoreWrite st', Message MsgDisabled, Resume] = Some t
             \<and> \<not> focusMode (read_config (cstore t)) \<and> hideNode n \<in> set (nodes (cpage t))"
proof -
  let ?r = "restore_all (cpage s)"
  have wfr: "wf_page ?r" using assms(4) by (simp add: restore_all_wf_marker)
  have sn: "showNode n \<in> set (nodes ?r)" using assms(5)
    by (simp add: restore_all_eq removeBlockedOverlay_def)
  have eq: "node_after (read_config snap) (pathname ?r) (showNode n) = hideNode n"
    using assms(6,7)
    by (auto simp: node_after_def item_step_def classify_node_def is_short_form_def item_link_def
        split: prod.splits)
  have "hideNode n \<in> set (nodes (processVideoItems snap ?r))"
    unfolding processVideoItems_nodes_on [OF wfr assms(2)] set_map using sn eq by (metis image_eqI)
  then show ?thesis using assms(1,3) by (simp add: observe_def arm_def)
qed

theorem stale_pass_after_disable_witness:
  "\<exists>t. cs_run ((cs_init demo_page focus_store)\<lparr>inflight := [focus_store]\<rparr>)
          [StoreWrite off_store, Message MsgDisabled, Resume] = Some t
       \<and> \<not> focusMode (read_config (cstore t)) \<and> hideNode demo_item \<in> set (nodes (cpage t))"
proof -
  let ?s = "(cs_init demo_page focus_store)\<lparr>inflight := [focus_store]\<rparr>"
  have h1: "inflight ?s = [focus_store]" by (simp add: cs_init_def)
  have h2: "focusMode (read_config focus_store)" "\<not> focusMode (read_config off_store)" by simp_all
  have h3: "wf_page (cpage ?s)" by (simp add: cs_init_def)
  have h4: "demo_item \<in> set (nodes (cpage ?s))" by (simp add: cs_init_def demo_page_def)
  have h5: "tag demo_item \<in> set VIDEO_ITEM_SELECTORS" by (simp add: demo_item_def VIDEO_ITEM_SELECTORS_def)
  have h6: "\<not> isEducationalByText (fst (extractTitleAndChannel demo_item)) (snd (extractTitleAndChannel demo_item))
             (allowKeywords (read_config focus_store)) (channelWhitelist (read_config focus_store))"
    by (simp add: pass_eval demo_item_def)
  from stale_pass_after_disable [OF h1 h2 h3 h4 h5 h6] show ?thesis .
qed

end
