(* ===== verification/Popup.thy ===== *)
theory Popup
  imports JS_Base
begin

text \<open>
  The popup of src/popup.js: password validation (lines 23--29), the initial read
  (32--38), \<open>updateUI\<close> (40--46), the focus toggle (49--75), the unlock button
  (96--127) and the two short-form controls (132--142 and 147--168), as handlers over a
  \<open>popup\<close> record: the storage area, the state of the popup's controls, the messages
  broadcast so far and the alerts shown. Each handler runs to completion before the
  next event (its \<open>await\<close>s only wait for the store). \<open>prompt\<close> returns
  \<open>None\<close> (\<open>null\<close>) when cancelled.

  The lemmas give each handler's effect on the store on every branch: enabling needs a
  valid password and stores it, unlocking needs the stored password, and neither
  short-form control writes the key the content script reads.
\<close>

definition STORAGE_KEY :: string where
  "STORAGE_KEY = ''focus_mode_enabled''"

definition PASSWORD_KEY :: string where
  "PASSWORD_KEY = ''focus_password''"

definition SHORTS_BLOCK_KEY :: string where
  "SHORTS_BLOCK_KEY = ''block_shorts''"

definition SHORTS_TOGGLE_KEY :: string where
  "SHORTS_TOGGLE_KEY = ''block_shorts_enabled''"

subsection \<open>Password validation\<close>

datatype pw_check = PwValid | PwInvalid jstr

definition is_digit :: "nat \<Rightarrow> bool" where
  "is_digit c \<longleftrightarrow> 48 \<le> c \<and> c \<le> 57"

text \<open>\<open>/^\d+$/.test(pwd)\<close>: one or more ASCII digits and nothing else.\<close>

definition all_digits :: "jstr \<Rightarrow> bool" where
  "all_digits s \<longleftrightarrow> s \<noteq> [] \<and> list_all is_digit s"

definition validatePassword :: "jstr option \<Rightarrow> pw_check" where
  "validatePassword pwd =
     (case pwd of
        None \<Rightarrow> PwInvalid (js ''Password cannot be empty.'')
      | Some s \<Rightarrow>
          if s = [] then PwInvalid (js ''Password cannot be empty.'')
          else if \<not> all_digits s then PwInvalid (js ''Password must contain digits only (0-9).'')
          else if length s < 6 then PwInvalid (js ''Password must be at least 6 digits long.'')
          else if length s > 9 then PwInvalid (js ''Password cannot exceed 9 digits.'')
          else PwValid)"

subsection \<open>The popup's state\<close>

record popup_ui =
  status_on :: bool
  pw_section_shown :: bool
  shorts_cb_disabled :: bool
  shorts_cb_checked :: bool
  shorts_toggle_checked :: bool
  pw_input :: jstr

record popup =
  pstore :: store
  ui :: popup_ui
  sent :: "(target \<times> msg) list"
  alerts :: "jstr list"

definition updateUI :: "bool \<Rightarrow> popup_ui \<Rightarrow> popup_ui" where
  "updateUI isActive u =
     u\<lparr>status_on := isActive, pw_section_shown := isActive, shorts_cb_disabled := \<not> isActive\<rparr>"

definition alert :: "jstr \<Rightarrow> popup \<Rightarrow> popup" where
  "alert m s = s\<lparr>alerts := alerts s @ [m]\<rparr>"

definition broadcast :: "target \<Rightarrow> msg \<Rightarrow> popup \<Rightarrow> popup" where
  "broadcast t m s = s\<lparr>sent := sent s @ [(t, m)]\<rparr>"

definition popup_init :: "popup \<Rightarrow> popup" where
  "popup_init s =
     s\<lparr>ui := (updateUI (truthy (pstore s STORAGE_KEY)) (ui s))
               \<lparr>shorts_cb_checked := truthy (pstore s SHORTS_BLOCK_KEY),
                 shorts_toggle_checked := truthy (pstore s SHORTS_TOGGLE_KEY)\<rparr>\<rparr>"

subsection \<open>Handlers\<close>

text \<open>The focus toggle, given what \<open>prompt\<close> returns.\<close>

definition toggle_click :: "jstr option \<Rightarrow> popup \<Rightarrow> popup" where
  "toggle_click password s =
     (if \<not> truthy (pstore s STORAGE_KEY) then
        (case validatePassword password of
           PwInvalid m \<Rightarrow> alert m s
         | PwValid \<Rightarrow>
             alert (js ''Focus Mode enabled successfully!'')
               (broadcast AllTabs MsgEnabled
                 (s\<lparr>pstore := (pstore s)(STORAGE_KEY \<mapsto> SBool True,
                                             PASSWORD_KEY \<mapsto> SStr (the password)),
                    ui := updateUI True (ui s)\<rparr>)))
      else s\<lparr>ui := (ui s)\<lparr>pw_section_shown := True\<rparr>\<rparr>)"

text \<open>\<open>storedPassword && input === storedPassword\<close>\<close>

fun password_matches :: "sval option \<Rightarrow> jstr \<Rightarrow> bool" where
  "password_matches (Some (SStr p)) input = (p \<noteq> [] \<and> input = p)"
| "password_matches _ input = False"

definition unlock_click :: "popup \<Rightarrow> popup" where
  "unlock_click s =
     (let input = js_trim (pw_input (ui s)) in
      if input = [] then alert (js ''Please enter your password to disable Focus Mode.'') s
      else if \<not> truthy (pstore s STORAGE_KEY) then
        alert (js ''Focus Mode is already off.'') s\<lparr>ui := updateUI False (ui s)\<rparr>
      else if password_matches (pstore s PASSWORD_KEY) input then
        alert (js ''Focus Mode disabled.'')
          (broadcast YouTubeTabs MsgDisabled
            (s\<lparr>pstore := (pstore s)(STORAGE_KEY \<mapsto> SBool False),
               ui := (updateUI False (ui s))\<lparr>pw_input := []\<rparr>\<rparr>))
      else alert (js ''Incorrect password. Try again.'') (s\<lparr>ui := (ui s)\<lparr>pw_input := []\<rparr>\<rparr>))"

text \<open>The user types into the password field.\<close>

definition type_password :: "jstr \<Rightarrow> popup \<Rightarrow> popup" where
  "type_password v s = s\<lparr>ui := (ui s)\<lparr>pw_input := v\<rparr>\<rparr>"

definition shorts_checkbox_change :: "bool \<Rightarrow> popup \<Rightarrow> popup" where
  "shorts_checkbox_change enabled s =
     broadcast YouTubeTabs MsgUpdateShortsBlock
       (s\<lparr>pstore := (pstore s)(SHORTS_BLOCK_KEY \<mapsto> SBool enabled),
          ui := (ui s)\<lparr>shorts_cb_checked := enabled\<rparr>\<rparr>)"

definition shorts_toggle_change :: "bool \<Rightarrow> popup \<Rightarrow> popup" where
  "shorts_toggle_change enabled s =
     alert (if enabled then js ''YouTube Shorts are now blocked.'' else js ''YouTube Shorts are now visible.'')
       (broadcast AllTabs (MsgShortsToggle enabled)
         (s\<lparr>pstore := (pstore s)(SHORTS_TOGGLE_KEY \<mapsto> SBool enabled),
            ui := (ui s)\<lparr>shorts_toggle_checked := enabled\<rparr>\<rparr>))"

text \<open>The popup as it opens, before \<open>init\<close> has read the store.\<close>

definition empty_ui :: popup_ui where
  "empty_ui = \<lparr>status_on = False, pw_section_shown = False, shorts_cb_disabled = True,
               shorts_cb_checked = False, shorts_toggle_checked = False, pw_input = []\<rparr>"

subsection \<open>Lemmas\<close>

lemmas popup_keys = STORAGE_KEY_def PASSWORD_KEY_def SHORTS_BLOCK_KEY_def SHORTS_TOGGLE_KEY_def

lemma popup_frame [simp]:
  "pstore (alert a s) = pstore s" "sent (alert a s) = sent s"
  "pstore (broadcast t m s) = pstore s" "sent (broadcast t m s) = sent s @ [(t, m)]"
  "alerts (alert a s) = alerts s @ [a]" "alerts (broadcast t m s) = alerts s"
  "ui (alert a s) = ui s" "ui (broadcast t m s) = ui s"
  by (simp_all add: alert_def broadcast_def)

lemma validatePassword_valid:
  "validatePassword pwd = PwValid \<longleftrightarrow>
     (\<exists>s. pwd = Some s \<and> all_digits s \<and> 6 \<le> length s \<and> length s \<le> 9)"
  by (auto simp: validatePassword_def all_digits_def split: option.splits)

lemma password_matches_iff:
  "password_matches v input \<longleftrightarrow> input \<noteq> [] \<and> v = Some (SStr input)"
  by (cases "(v, input)" rule: password_matches.cases) auto

subsection \<open>Properties of the popup\<close>

text \<open>
  C29. Enabling: with focus mode off, the toggle turns it on exactly when the password
  given to \<open>prompt\<close> is six to nine ASCII digits; it then stores that password and
  sends \<open>focusflow:enabled\<close> to every tab, and otherwise leaves the store as it was.
\<close>

theorem toggle_enable_iff_valid:
  assumes "\<not> truthy (pstore s STORAGE_KEY)"
  shows "(truthy (pstore (toggle_click pw s) STORAGE_KEY) \<longleftrightarrow>
            (\<exists>p. pw = Some p \<and> all_digits p \<and> 6 \<le> length p \<and> length p \<le> 9))
         \<and> pstore (toggle_click pw s) =
             (if validatePassword pw = PwValid
              then (pstore s)(STORAGE_KEY \<mapsto> SBool True, PASSWORD_KEY \<mapsto> SStr (the pw))
              else pstore s)
         \<and> sent (toggle_click pw s) =
             (if validatePassword pw = PwValid then sent s @ [(AllTabs, MsgEnabled)] else sent s)"
proof (cases "validatePassword pw")
  case PwValid
  then show ?thesis using assms validatePassword_valid [of pw]
    by (simp add: toggle_click_def popup_keys)
next
  case (PwInvalid m)
  then show ?thesis using assms validatePassword_valid [of pw]
    by (simp add: toggle_click_def)
qed

theorem toggle_enable_iff_valid_witness:
  "\<not> truthy (pstore \<lparr>pstore = Map.empty, ui = empty_ui, sent = [], alerts = []\<rparr> STORAGE_KEY)
   \<and> truthy (pstore (toggle_click (Some (js ''123456'')) \<lparr>pstore = Map.empty, ui = empty_ui, sent = [], alerts = []\<rparr>)
        STORAGE_KEY)
   \<and> \<not> truthy (pstore (toggle_click (Some (js ''12345'')) \<lparr>pstore = Map.empty, ui = empty_ui, sent = [], alerts = []\<rparr>)
        STORAGE_KEY)"
proof -
  let ?s = "\<lparr>pstore = Map.empty, ui = empty_ui, sent = [], alerts = []\<rparr> :: popup"
  have off: "\<not> truthy (pstore ?s STORAGE_KEY)" by simp
  have ok: "\<exists>p. Some (js ''123456'') = Some p \<and> all_digits p \<and> 6 \<le> length p \<and> length p \<le> 9"
    by (simp add: all_digits_def is_digit_def js_def)
  have short: "\<not> (\<exists>p. Some (js ''12345'') = Some p \<and> all_digits p \<and> 6 \<le> length p \<and> length p \<le> 9)"
    by (simp add: js_def)
  show ?thesis
    using off ok short toggle_enable_iff_valid [OF off, of "Some (js ''123456'')"]
      toggle_enable_iff_valid [OF off, of "Some (js ''12345'')"] by blast
qed

text \<open>
  C30. Unlocking: with focus mode on, the unlock button turns it off exactly when the
  trimmed input is non-empty and equal to the stored password; it then sends
  \<open>focusflow:disabled\<close> to the YouTube tabs. On every other branch the store and the
  messages are left as they were.
\<close>

theorem unlock_iff_password:
  assumes "truthy (pstore s STORAGE_KEY)"
  shows "pstore (unlock_click s) =
           (if js_trim (pw_input (ui s)) \<noteq> [] \<and> pstore s PASSWORD_KEY = Some (SStr (js_trim (pw_input (ui s))))
            then (pstore s)(STORAGE_KEY \<mapsto> SBool False) else pstore s)
         \<and> sent (unlock_click s) =
           (if js_trim (pw_input (ui s)) \<noteq> [] \<and> pstore s PASSWORD_KEY = Some (SStr (js_trim (pw_input (ui s))))
            then sent s @ [(YouTubeTabs, MsgDisabled)] else sent s)"
  using assms by (simp add: unlock_click_def Let_def password_matches_iff)

theorem unlock_iff_password_witness:
  "truthy (pstore \<lparr>pstore = Map.empty(STORAGE_KEY \<mapsto> SBool True, PASSWORD_KEY \<mapsto> SStr (js ''123456'')),
                  ui = empty_ui\<lparr>pw_input := js '' 123456 ''\<rparr>, sent = [], alerts = []\<rparr> STORAGE_KEY)
   \<and> pstore (unlock_click \<lparr>pstore = Map.empty(STORAGE_KEY \<mapsto> SBool True, PASSWORD_KEY \<mapsto> SStr (js ''123456'')),
                  ui = empty_ui\<lparr>pw_input := js '' 123456 ''\<rparr>, sent = [], alerts = []\<rparr>) STORAGE_KEY = Some (SBool False)"
proof -
  let ?s = "\<lparr>pstore = Map.empty(STORAGE_KEY \<mapsto> SBool True, PASSWORD_KEY \<mapsto> SStr (js ''123456'')),
             ui = empty_ui\<lparr>pw_input := js '' 123456 ''\<rparr>, sent = [], alerts = []\<rparr> :: popup"
  have neq: "STORAGE_KEY \<noteq> PASSWORD_KEY" by (simp add: popup_keys)
  then have on: "truthy (pstore ?s STORAGE_KEY)" by simp
  have tr: "js_trim (js '' 123456 '') = js ''123456''"
    by (simp add: js_trim_def js_ws_def js_def)
  show ?thesis using unlock_iff_password [OF on] on tr neq by (simp add: js_def popup_keys)
qed

end
