(* ===== verification/Options.thy ===== *)
theory Options
  imports JS_Base
begin

text \<open>
  The options page of src/options.js: the initial read that fills the two list fields
  (lines 15--19), saving the allow-keywords and the channel whitelist (21--33), saving a
  password (35--44) and resetting the settings (46--54), as handlers over an
  \<open>options_page\<close> record (the storage area, the three text fields, the alerts shown).

  A list field is saved as \<open>val ? val.split(",").map(x => x.trim()).filter(Boolean) : []\<close>
  (\<open>parse_list\<close>) and shown as \<open>list.join(", ")\<close> (\<open>join_list\<close>). The initial read
  computes \<open>(data[K] || []).join(", ")\<close>, which throws a \<open>TypeError\<close> when a truthy
  non-array sits under the key; the error aborts \<open>init\<close> after the fields already set,
  so \<open>options_init\<close> returns the page and the error, if any.

  The lemmas show the round trip between the two representations of a list, and that
  every list the page saves is made of trimmed, non-empty, comma-free entries.
\<close>

definition KEYWORD_ALLOWLIST_KEY_opt :: string where
  "KEYWORD_ALLOWLIST_KEY_opt = ''focus_allow_keywords''"

definition CHANNEL_WHITELIST_KEY_opt :: string where
  "CHANNEL_WHITELIST_KEY_opt = ''focus_whitelist_channels''"

definition PASSWORD_KEY_opt :: string where
  "PASSWORD_KEY_opt = ''focus_password''"

datatype js_error = TypeError

record options_page =
  ostore :: store
  kw_field :: jstr
  ch_field :: jstr
  pw_field :: jstr
  oalerts :: "jstr list"

subsection \<open>Lists as text\<close>

text \<open>\<open>s.split(",")\<close> (44 is the code unit of the comma).\<close>

fun split_on :: "nat \<Rightarrow> jstr \<Rightarrow> jstr list" where
  "split_on c [] = [[]]"
| "split_on c (x # xs) =
     (if x = c then [] # split_on c xs
      else (case split_on c xs of w # ws \<Rightarrow> (x # w) # ws | [] \<Rightarrow> [[x]]))"

definition parse_list :: "jstr \<Rightarrow> jstr list" where
  "parse_list v =
     (let val = js_trim v in
      if val \<noteq> [] then filter (\<lambda>x. x \<noteq> []) (map js_trim (split_on 44 val)) else [])"

text \<open>\<open>xs.join(sep)\<close>\<close>

fun join_with :: "jstr \<Rightarrow> jstr list \<Rightarrow> jstr" where
  "join_with sep [] = []"
| "join_with sep [x] = x"
| "join_with sep (x # y # xs) = x @ sep @ join_with sep (y # xs)"

definition join_list :: "jstr list \<Rightarrow> jstr" where
  "join_list xs = join_with (js '', '') xs"

text \<open>\<open>(data[K] || []).join(", ")\<close>\<close>

fun list_field :: "sval option \<Rightarrow> js_error + jstr" where
  "list_field (Some (SList xs)) = Inr (join_list xs)"
| "list_field v = (if truthy v then Inl TypeError else Inr [])"

subsection \<open>Handlers\<close>

definition oalert :: "jstr \<Rightarrow> options_page \<Rightarrow> options_page" where
  "oalert m s = s\<lparr>oalerts := oalerts s @ [m]\<rparr>"

definition options_init :: "options_page \<Rightarrow> js_error option \<times> options_page" where
  "options_init s =
     (case list_field (ostore s KEYWORD_ALLOWLIST_KEY_opt) of
        Inl e \<Rightarrow> (Some e, s)
      | Inr k \<Rightarrow>
          (case list_field (ostore s CHANNEL_WHITELIST_KEY_opt) of
             Inl e \<Rightarrow> (Some e, s\<lparr>kw_field := k\<rparr>)
           | Inr c \<Rightarrow> (None, s\<lparr>kw_field := k, ch_field := c\<rparr>)))"

definition save_keywords :: "options_page \<Rightarrow> options_page" where
  "save_keywords s =
     oalert (js ''Keywords saved successfully.'')
       (s\<lparr>ostore := (ostore s)(KEYWORD_ALLOWLIST_KEY_opt \<mapsto> SList (parse_list (kw_field s)))\<rparr>)"

definition save_channels :: "options_page \<Rightarrow> options_page" where
  "save_channels s =
     oalert (js ''Whitelisted channels saved successfully.'')
       (s\<lparr>ostore := (ostore s)(CHANNEL_WHITELIST_KEY_opt \<mapsto> SList (parse_list (ch_field s)))\<rparr>)"

definition save_password :: "options_page \<Rightarrow> options_page" where
  "save_password s =
     (let newPass = js_trim (pw_field s) in
      if length newPass < 6 then oalert (js ''Password must be at least 6 characters long.'') s
      else oalert (js ''Password updated successfully.'')
             (s\<lparr>ostore := (ostore s)(PASSWORD_KEY_opt \<mapsto> SStr newPass), pw_field := []\<rparr>))"

text \<open>The reset button, given the answer to \<open>confirm\<close>.\<close>

definition reset_all :: "bool \<Rightarrow> options_page \<Rightarrow> options_page" where
  "reset_all confirmed s =
     (if confirmed then
        oalert (js ''All settings have been reset.'')
          (s\<lparr>ostore := (ostore s)(KEYWORD_ALLOWLIST_KEY_opt := None, CHANNEL_WHITELIST_KEY_opt := None,
                                   PASSWORD_KEY_opt := None),
             kw_field := [], ch_field := [], pw_field := []\<rparr>)
      else s)"

subsection \<open>Well-formed list entries\<close>

text \<open>Every entry of a parsed list is trimmed, non-empty and free of commas.\<close>

definition good_entry :: "jstr \<Rightarrow> bool" where
  "good_entry x \<longleftrightarrow> x \<noteq> [] \<and> js_trim x = x \<and> 44 \<notin> set x"

subsection \<open>Lemmas\<close>

lemmas options_keys = KEYWORD_ALLOWLIST_KEY_opt_def CHANNEL_WHITELIST_KEY_opt_def PASSWORD_KEY_opt_def

lemma ostore_oalert [simp]: "ostore (oalert m s) = ostore s"
  by (simp add: oalert_def)

lemma split_on_nonempty [simp]: "split_on c s \<noteq> []"
  by (induction s) (auto split: list.splits)

lemma split_on_no_sep: "w \<in> set (split_on c s) \<Longrightarrow> c \<notin> set w"
  by (induction c s arbitrary: w rule: split_on.induct) (auto split: list.splits if_splits)

lemma parse_list_good: "x \<in> set (parse_list v) \<Longrightarrow> good_entry x"
  using split_on_no_sep set_js_trim
  by (fastforce simp: parse_list_def Let_def good_entry_def)

lemma split_on_nosep: "c \<notin> set x \<Longrightarrow> split_on c x = [x]"
  by (induction x) auto

lemma split_on_append: "c \<notin> set x \<Longrightarrow> split_on c (x @ c # y) = x # split_on c y"
  by (induction x) (auto split: list.splits)

lemma join_with_Cons: "join_with sep (x # xs) = x @ concat (map (\<lambda>y. sep @ y) xs)"
  by (induction sep xs arbitrary: x rule: join_with.induct) auto

lemma split_join:
  assumes "c \<notin> set x" and "c \<noteq> d" and "\<forall>y \<in> set ys. c \<notin> set y"
  shows "split_on c (x @ concat (map (\<lambda>y. c # d # y) ys)) = x # map (\<lambda>y. d # y) ys"
  using assms(1,3)
proof (induction ys arbitrary: x)
  case Nil
  then show ?case by (simp add: split_on_nosep)
next
  case (Cons y ys)
  have "c \<notin> set (d # y)" using Cons.prems(2) assms(2) by simp
  then have ih: "split_on c ((d # y) @ concat (map (\<lambda>y. c # d # y) ys))
                 = (d # y) # map (\<lambda>y. d # y) ys"
    using Cons.prems(2) by (intro Cons.IH) simp_all
  have eq: "x @ concat (map (\<lambda>y. c # d # y) (y # ys))
            = x @ c # ((d # y) @ concat (map (\<lambda>y. c # d # y) ys))"
    by simp
  show ?case
    unfolding eq by (simp only: split_on_append [OF Cons.prems(1)] ih list.map(2))
qed

lemma good_entry_ends:
  "good_entry x \<Longrightarrow> x \<noteq> [] \<and> \<not> js_ws (hd x) \<and> \<not> js_ws (last x)"
  using js_trim_hd_last [of x] by (simp add: good_entry_def)

lemma join_with_ends:
  assumes "\<forall>y \<in> set (x # xs). y \<noteq> []"
  shows "join_with sep (x # xs) \<noteq> [] \<and> hd (join_with sep (x # xs)) = hd x
         \<and> last (join_with sep (x # xs)) = last (last (x # xs))"
  using assms by (induction xs arbitrary: x) auto

lemma js_comma_space: "js '', '' = [44, 32]"
  by (simp add: js_def)

lemma options_init_store [simp]: "ostore (snd (options_init s)) = ostore s"
  by (simp add: options_init_def split: sum.splits)

lemma good_entry_norm: "good_entry x \<Longrightarrow> norm x \<noteq> []"
  by (metis good_entry_def norm_def js_lower_trim js_lower_def Nil_is_map_conv)

subsection \<open>Properties of the options page\<close>

text \<open>
  C23. Round trip: a list of trimmed, non-empty entries without commas, shown in its
  field by \<open>init\<close> (\<open>join(", ")\<close>) and saved back unchanged, is stored as the same
  list.
\<close>

theorem parse_join_roundtrip:
  assumes "\<forall>x \<in> set xs. good_entry x"
  shows "parse_list (join_list xs) = xs"
proof (cases xs)
  case Nil
  then show ?thesis by (simp add: parse_list_def join_list_def)
next
  case (Cons x rest)
  have ends: "\<forall>y \<in> set (x # rest). y \<noteq> [] \<and> \<not> js_ws (hd y) \<and> \<not> js_ws (last y)"
    using assms Cons good_entry_ends by blast
  have j: "join_list xs = x @ concat (map (\<lambda>y. 44 # 32 # y) rest)"
    by (simp add: Cons join_list_def join_with_Cons js_comma_space)
  have jt: "js_trim (join_list xs) = join_list xs"
  proof (rule js_trim_id)
    have "\<forall>y \<in> set (x # rest). y \<noteq> []" using ends by blast
    from join_with_ends [OF this, of "js '', ''"] ends last_in_set [of "x # rest"]
    show "join_list xs = [] \<or> \<not> js_ws (hd (join_list xs)) \<and> \<not> js_ws (last (join_list xs))"
      by (simp add: Cons join_list_def)
  qed
  have sp: "split_on 44 (join_list xs) = x # map (\<lambda>y. 32 # y) rest"
    unfolding j using assms Cons by (intro split_join) (auto simp: good_entry_def)
  have tr: "map js_trim (x # map (\<lambda>y. 32 # y) rest) = x # rest"
    using assms Cons by (auto simp: good_entry_def js_trim_Cons_ws js_ws_def map_idI)
  have ne: "join_list xs \<noteq> []" using ends by (simp add: j)
  have fl: "filter (\<lambda>x. x \<noteq> []) (x # rest) = x # rest"
    using assms Cons by (auto simp: good_entry_def filter_id_conv)
  have "parse_list (join_list xs) = filter (\<lambda>x. x \<noteq> []) (map js_trim (split_on 44 (join_list xs)))"
    using ne by (simp add: parse_list_def Let_def jt)
  also have "\<dots> = filter (\<lambda>x. x \<noteq> []) (x # rest)"
    by (simp only: sp tr)
  also have "\<dots> = xs" using fl Cons by simp
  finally show ?thesis .
qed

theorem parse_join_roundtrip_witness:
  "parse_list (join_list [js ''math'', js ''rust lang'']) = [js ''math'', js ''rust lang'']"
proof -
  have "\<forall>x \<in> set [js ''math'', js ''rust lang'']. good_entry x"
    by (simp add: good_entry_def js_trim_def js_ws_def js_def)
  from parse_join_roundtrip [OF this] show ?thesis .
qed

end
