(* ===== verification/Settings.thy ===== *)
theory Settings
  imports Popup Options Config
begin

text \<open>
  The settings side of FocusFlow as one system: the popup (theory \<open>Popup\<close>) and the
  options page (theory \<open>Options\<close>) act on the same \<open>chrome.storage.local\<close> area, which
  the content script reads (theory \<open>Config\<close>). A \<open>world\<close> holds the store, the
  popup's controls, the options page's three fields, the messages broadcast and the
  alerts; \<open>settings_op\<close> lists the user's actions, and \<open>settings_step\<close> runs the
  handler of the source for each. The keys the three files name are compared in
  \<open>keys_agree\<close>: they agree on the focus flag, the lists and the password, and the
  popup's two short-form keys differ from the one the content script reads.

  The lemmas show what a run of actions can and cannot do to the store: the content
  script's short-form key is never written, the store keeps its types, a password
  saved on the options page unlocks focus mode without the old one, and after a reset
  no popup action turns focus mode off.
\<close>

record world =
  wstore :: store
  wui :: popup_ui
  kwf :: jstr
  chf :: jstr
  pwf :: jstr
  wsent :: "(target \<times> msg) list"
  walerts :: "jstr list"

datatype settings_op =
    PopupInit
  | PopupToggle "jstr option"
  | PopupType jstr
  | PopupUnlock
  | PopupShortsCheckbox bool
  | PopupShortsToggle bool
  | OptionsInit
  | OptionsTypeKeywords jstr
  | OptionsTypeChannels jstr
  | OptionsTypePassword jstr
  | OptionsSaveKeywords
  | OptionsSaveChannels
  | OptionsSavePassword
  | OptionsReset bool

definition to_popup :: "world \<Rightarrow> popup" where
  "to_popup w = \<lparr>pstore = wstore w, ui = wui w, sent = wsent w, alerts = walerts w\<rparr>"

definition from_popup :: "world \<Rightarrow> popup \<Rightarrow> world" where
  "from_popup w s = w\<lparr>wstore := pstore s, wui := ui s, wsent := sent s, walerts := alerts s\<rparr>"

definition to_options :: "world \<Rightarrow> options_page" where
  "to_options w = \<lparr>ostore = wstore w, kw_field = kwf w, ch_field = chf w, pw_field = pwf w,
                   oalerts = walerts w\<rparr>"

definition from_options :: "world \<Rightarrow> options_page \<Rightarrow> world" where
  "from_options w s = w\<lparr>wstore := ostore s, kwf := kw_field s, chf := ch_field s, pwf := pw_field s,
                        walerts := oalerts s\<rparr>"

definition on_popup :: "(popup \<Rightarrow> popup) \<Rightarrow> world \<Rightarrow> world" where
  "on_popup f w = from_popup w (f (to_popup w))"

definition on_options :: "(options_page \<Rightarrow> options_page) \<Rightarrow> world \<Rightarrow> world" where
  "on_options f w = from_options w (f (to_options w))"

fun settings_step :: "settings_op \<Rightarrow> world \<Rightarrow> world" where
  "settings_step PopupInit w = on_popup popup_init w"
| "settings_step (PopupToggle pw) w = on_popup (toggle_click pw) w"
| "settings_step (PopupType v) w = on_popup (type_password v) w"
| "settings_step PopupUnlock w = on_popup unlock_click w"
| "settings_step (PopupShortsCheckbox b) w = on_popup (shorts_checkbox_change b) w"
| "settings_step (PopupShortsToggle b) w = on_popup (shorts_toggle_change b) w"
| "settings_step OptionsInit w = on_options (\<lambda>s. snd (options_init s)) w"
| "settings_step (OptionsTypeKeywords v) w = w\<lparr>kwf := v\<rparr>"
| "settings_step (OptionsTypeChannels v) w = w\<lparr>chf := v\<rparr>"
| "settings_step (OptionsTypePassword v) w = w\<lparr>pwf := v\<rparr>"
| "settings_step OptionsSaveKeywords w = on_options save_keywords w"
| "settings_step OptionsSaveChannels w = on_options save_channels w"
| "settings_step OptionsSavePassword w = on_options save_password w"
| "settings_step (OptionsReset b) w = on_options (reset_all b) w"

definition settings_run :: "world \<Rightarrow> settings_op list \<Rightarrow> world" where
  "settings_run w ops = fold settings_step ops w"

subsection \<open>The store's types\<close>

text \<open>
  What each writer stores: a boolean under each flag, a string under the password, and
  lists of trimmed, non-empty, comma-free strings under the two list keys.
\<close>

fun is_bool :: "sval option \<Rightarrow> bool" where
  "is_bool None = True"
| "is_bool (Some (SBool b)) = True"
| "is_bool _ = False"

fun is_str :: "sval option \<Rightarrow> bool" where
  "is_str None = True"
| "is_str (Some (SStr s)) = True"
| "is_str _ = False"

fun is_good_list :: "sval option \<Rightarrow> bool" where
  "is_good_list None = True"
| "is_good_list (Some (SList xs)) = list_all good_entry xs"
| "is_good_list _ = False"

definition typed_store :: "store \<Rightarrow> bool" where
  "typed_store st \<longleftrightarrow>
     is_bool (st STORAGE_KEY) \<and> is_bool (st SHORTS_BLOCK_KEY) \<and> is_bool (st SHORTS_TOGGLE_KEY)
     \<and> is_str (st PASSWORD_KEY)
     \<and> is_good_list (st KEYWORD_ALLOWLIST_KEY) \<and> is_good_list (st CHANNEL_WHITELIST_KEY)"

subsection \<open>Example worlds\<close>

definition fresh_world :: world where
  "fresh_world = \<lparr>wstore = Map.empty, wui = empty_ui, kwf = [], chf = [], pwf = [], wsent = [],
                  walerts = []\<rparr>"

definition locked_world :: world where
  "locked_world = fresh_world\<lparr>wstore := Map.empty(STORAGE_KEY \<mapsto> SBool True,
                                                   PASSWORD_KEY \<mapsto> SStr (js ''123456''))\<rparr>"

subsection \<open>Lemmas\<close>

lemma keys_agree:
  "STORAGE_KEY = FOCUS_MODE_KEY" "PASSWORD_KEY_opt = PASSWORD_KEY"
  "KEYWORD_ALLOWLIST_KEY_opt = KEYWORD_ALLOWLIST_KEY"
  "CHANNEL_WHITELIST_KEY_opt = CHANNEL_WHITELIST_KEY"
  "SHORTS_BLOCK_KEY \<noteq> BLOCK_SHORTS_KEY" "SHORTS_TOGGLE_KEY \<noteq> BLOCK_SHORTS_KEY"
  by (simp_all add: popup_keys options_keys config_keys)

lemma keys_distinct [simp]:
  "STORAGE_KEY \<noteq> PASSWORD_KEY" "STORAGE_KEY \<noteq> SHORTS_BLOCK_KEY" "STORAGE_KEY \<noteq> SHORTS_TOGGLE_KEY"
  "STORAGE_KEY \<noteq> KEYWORD_ALLOWLIST_KEY" "STORAGE_KEY \<noteq> CHANNEL_WHITELIST_KEY"
  "PASSWORD_KEY \<noteq> SHORTS_BLOCK_KEY" "PASSWORD_KEY \<noteq> SHORTS_TOGGLE_KEY"
  "PASSWORD_KEY \<noteq> KEYWORD_ALLOWLIST_KEY" "PASSWORD_KEY \<noteq> CHANNEL_WHITELIST_KEY"
  "SHORTS_BLOCK_KEY \<noteq> SHORTS_TOGGLE_KEY" "SHORTS_BLOCK_KEY \<noteq> KEYWORD_ALLOWLIST_KEY"
  "SHORTS_BLOCK_KEY \<noteq> CHANNEL_WHITELIST_KEY" "SHORTS_TOGGLE_KEY \<noteq> KEYWORD_ALLOWLIST_KEY"
  "SHORTS_TOGGLE_KEY \<noteq> CHANNEL_WHITELIST_KEY" "KEYWORD_ALLOWLIST_KEY \<noteq> CHANNEL_WHITELIST_KEY"
  "BLOCK_SHORTS_KEY \<noteq> STORAGE_KEY" "BLOCK_SHORTS_KEY \<noteq> PASSWORD_KEY"
  "BLOCK_SHORTS_KEY \<noteq> SHORTS_BLOCK_KEY" "BLOCK_SHORTS_KEY \<noteq> SHORTS_TOGGLE_KEY"
  "BLOCK_SHORTS_KEY \<noteq> KEYWORD_ALLOWLIST_KEY" "BLOCK_SHORTS_KEY \<noteq> CHANNEL_WHITELIST_KEY"
  by (simp_all add: popup_keys config_keys)

lemmas keys_distinct_sym [simp] = keys_distinct [THEN not_sym]

lemmas key_unfold = keys_agree(2,3,4) keys_agree(1) [symmetric]

lemma on_popup_sel [simp]:
  "wstore (on_popup f w) = pstore (f (to_popup w))" "wui (on_popup f w) = ui (f (to_popup w))"
  "wsent (on_popup f w) = sent (f (to_popup w))" "pwf (on_popup f w) = pwf w"
  by (simp_all add: on_popup_def from_popup_def)

lemma on_options_sel [simp]:
  "wstore (on_options f w) = ostore (f (to_options w))" "pwf (on_options f w) = pw_field (f (to_options w))"
  "wui (on_options f w) = wui w" "wsent (on_options f w) = wsent w"
  by (simp_all add: on_options_def from_options_def)

lemma to_popup_sel [simp]:
  "pstore (to_popup w) = wstore w" "ui (to_popup w) = wui w" "sent (to_popup w) = wsent w"
  by (simp_all add: to_popup_def)

lemma to_options_sel [simp]: "ostore (to_options w) = wstore w" "pw_field (to_options w) = pwf w"
  "kw_field (to_options w) = kwf w" "ch_field (to_options w) = chf w"
  by (simp_all add: to_options_def)

lemma settings_run_Cons [simp]: "settings_run w (op # ops) = settings_run (settings_step op w) ops"
  by (simp add: settings_run_def)

lemma settings_run_Nil [simp]: "settings_run w [] = w"
  by (simp add: settings_run_def)

lemma settings_run_append: "settings_run w (ops @ ops') = settings_run (settings_run w ops) ops'"
  by (simp add: settings_run_def)

lemmas handler_defs = popup_init_def toggle_click_def type_password_def unlock_click_def
  shorts_checkbox_change_def shorts_toggle_change_def save_keywords_def save_channels_def
  save_password_def reset_all_def

text \<open>The six keys the popup and the options page write; every other key is left alone.\<close>

lemma settings_step_frame:
  assumes "k \<notin> {STORAGE_KEY, PASSWORD_KEY, SHORTS_BLOCK_KEY, SHORTS_TOGGLE_KEY,
                 KEYWORD_ALLOWLIST_KEY, CHANNEL_WHITELIST_KEY}"
  shows "wstore (settings_step op w) k = wstore w k"
  using assms by (cases op) (simp_all add: handler_defs key_unfold Let_def split: pw_check.split)

lemma settings_run_frame:
  assumes "k \<notin> {STORAGE_KEY, PASSWORD_KEY, SHORTS_BLOCK_KEY, SHORTS_TOGGLE_KEY,
                 KEYWORD_ALLOWLIST_KEY, CHANNEL_WHITELIST_KEY}"
  shows "wstore (settings_run w ops) k = wstore w k"
  by (induction ops arbitrary: w) (simp_all add: settings_step_frame [OF assms])

lemma parse_list_all_good [simp]: "list_all good_entry (parse_list v)"
  by (simp add: list_all_iff parse_list_good)

lemma typed_step:
  "typed_store (wstore w) \<Longrightarrow> typed_store (wstore (settings_step op w))"
  by (cases op) (simp_all add: typed_store_def handler_defs key_unfold Let_def split: pw_check.split)

text \<open>With focus mode on and no stored password, only saving a password on the options page
  can change either.\<close>

lemma locked_step:
  assumes "truthy (wstore w STORAGE_KEY)" "wstore w PASSWORD_KEY = None" "op \<noteq> OptionsSavePassword"
  shows "truthy (wstore (settings_step op w) STORAGE_KEY) \<and> wstore (settings_step op w) PASSWORD_KEY = None"
  using assms by (cases op) (simp_all add: handler_defs key_unfold Let_def split: pw_check.split)

lemma defaults_good:
  "list_all good_entry DEFAULT_ALLOW_KEYWORDS" "list_all good_entry DEFAULT_CHANNEL_WHITELIST"
  by (simp_all add: DEFAULT_ALLOW_KEYWORDS_def DEFAULT_CHANNEL_WHITELIST_def good_entry_def js_trim_def js_ws_def js_def)

lemma cfg_list_good: "is_good_list v \<Longrightarrow> list_all good_entry d \<Longrightarrow> list_all good_entry (cfg_list v d)"
  by (induction v d rule: cfg_list.induct) auto

lemma locked_run:
  assumes "truthy (wstore w STORAGE_KEY)" "wstore w PASSWORD_KEY = None" "OptionsSavePassword \<notin> set ops"
  shows "truthy (wstore (settings_run w ops) STORAGE_KEY)"
  using assms
proof (induction ops arbitrary: w)
  case (Cons op ops)
  then show ?case using locked_step [of w op] by auto
qed simp

subsection \<open>Properties of the settings\<close>

text \<open>
  C24. No action of the popup or the options page writes \<open>focus_block_shorts\<close>, the
  key the content script reads for short-form blocking (the popup writes
  \<open>block_shorts\<close> and \<open>block_shorts_enabled\<close>): whatever the user does in the
  settings, the content script's \<open>blockShorts\<close> keeps the value it had.
\<close>

theorem content_shorts_flag_unchanged:
  "wstore (settings_run w ops) BLOCK_SHORTS_KEY = wstore w BLOCK_SHORTS_KEY
   \<and> blockShorts (read_config (wstore (settings_run w ops))) = blockShorts (read_config (wstore w))"
proof -
  have k: "BLOCK_SHORTS_KEY \<notin> {STORAGE_KEY, PASSWORD_KEY, SHORTS_BLOCK_KEY, SHORTS_TOGGLE_KEY,
                 KEYWORD_ALLOWLIST_KEY, CHANNEL_WHITELIST_KEY}" by simp
  show ?thesis by (simp add: settings_run_frame [OF k] read_config_def)
qed

text \<open>
  C25. Password bypass: with focus mode on, saving any trimmed string of six or more
  characters as the password on the options page and typing it into the popup turns
  focus mode off and sends \<open>focusflow:disabled\<close>, without the password set when
  focus mode was enabled.
\<close>

theorem options_password_unlocks:
  assumes "truthy (wstore w STORAGE_KEY)" "js_trim p = p" "6 \<le> length p"
  shows "wstore (settings_run w [OptionsTypePassword p, OptionsSavePassword, PopupType p, PopupUnlock])
           STORAGE_KEY = Some (SBool False)
         \<and> wsent (settings_run w [OptionsTypePassword p, OptionsSavePassword, PopupType p, PopupUnlock])
           = wsent w @ [(YouTubeTabs, MsgDisabled)]"
proof -
  have "p \<noteq> []" using assms(3) by auto
  then show ?thesis using assms
    by (simp add: save_password_def type_password_def unlock_click_def Let_def key_unfold
        password_matches_iff)
qed

theorem options_password_unlocks_witness:
  "wstore (settings_run locked_world
     [OptionsTypePassword (js ''hunter22''), OptionsSavePassword, PopupType (js ''hunter22''), PopupUnlock])
     STORAGE_KEY = Some (SBool False)"
proof -
  have on: "truthy (wstore locked_world STORAGE_KEY)" by (simp add: locked_world_def)
  have tr: "js_trim (js ''hunter22'') = js ''hunter22''" by (simp add: js_trim_def js_ws_def js_def)
  have len: "6 \<le> length (js ''hunter22'')" by (simp add: js_def)
  from options_password_unlocks [OF on tr len] show ?thesis by blast
qed

text \<open>
  C26. Reset lock: a confirmed reset on the options page while focus mode is on removes
  the password but not the focus flag; from then on no sequence of actions that does not
  save a new password on the options page turns focus mode off.
\<close>

theorem reset_locks_focus_mode:
  assumes "truthy (wstore w STORAGE_KEY)" "OptionsSavePassword \<notin> set ops"
  shows "truthy (wstore (settings_run w (OptionsReset True # ops)) STORAGE_KEY)"
proof -
  let ?w = "settings_step (OptionsReset True) w"
  have "truthy (wstore ?w STORAGE_KEY)" "wstore ?w PASSWORD_KEY = None"
    using assms(1) by (simp_all add: reset_all_def key_unfold)
  from locked_run [OF this assms(2)] show ?thesis by simp
qed

theorem reset_locks_focus_mode_witness:
  "truthy (wstore (settings_run locked_world [OptionsReset True, PopupType (js ''123456''), PopupUnlock])
     STORAGE_KEY)"
proof -
  have on: "truthy (wstore locked_world STORAGE_KEY)" by (simp add: locked_world_def)
  have "OptionsSavePassword \<notin> set [PopupType (js ''123456''), PopupUnlock]" by simp
  from reset_locks_focus_mode [OF on this] show ?thesis by simp
qed

text \<open>
  C27. Store typing: every action of the popup and the options page keeps the store
  typed: booleans under the three flags, a string under the password, and lists of
  trimmed, non-empty, comma-free strings under the two list keys.
\<close>

theorem settings_preserve_typed_store:
  assumes "typed_store (wstore w)"
  shows "typed_store (wstore (settings_run w ops))"
  using assms by (induction ops arbitrary: w) (simp_all add: typed_step)

theorem settings_preserve_typed_store_witness:
  "typed_store (wstore (settings_run fresh_world
     [OptionsTypeKeywords (js ''math, , rust ''), OptionsSaveKeywords, PopupToggle (Some (js ''123456''))]))"
proof -
  have "typed_store (wstore fresh_world)" by (simp add: fresh_world_def typed_store_def)
  from settings_preserve_typed_store [OF this] show ?thesis .
qed

text \<open>
  C28. From a typed store the content script never sees a blank allow-keyword or
  whitelisted channel: each entry it uses, stored or built in, normalises to a non-empty
  string, so the catch-all keyword of C8 cannot be set through the options page.
\<close>

theorem typed_store_no_blank_entries:
  assumes "typed_store st"
  shows "(\<forall>k \<in> set (allowKeywords (read_config st)). norm k \<noteq> [])
         \<and> (\<forall>c \<in> set (channelWhitelist (read_config st)). norm c \<noteq> [])"
proof -
  have "list_all good_entry (allowKeywords (read_config st))
        \<and> list_all good_entry (channelWhitelist (read_config st))"
    using assms by (simp add: typed_store_def read_config_def cfg_list_good defaults_good)
  then show ?thesis by (simp add: list_all_iff good_entry_norm)
qed

theorem typed_store_no_blank_entries_witness:
  "list_all (\<lambda>k. norm k \<noteq> [])
     (allowKeywords (read_config (Map.empty(KEYWORD_ALLOWLIST_KEY \<mapsto> SList [js ''rust'']))))"
proof -
  have "typed_store (Map.empty(KEYWORD_ALLOWLIST_KEY \<mapsto> SList [js ''rust'']))"
    by (simp add: typed_store_def good_entry_def js_trim_def js_ws_def js_def)
  from typed_store_no_blank_entries [OF this] show ?thesis unfolding list_all_iff by blast
qed

text \<open>
  C31. The options page stores any trimmed password of six or more characters, while
  the popup accepts a password only when it is six to nine digits: a password saved
  there can be one that \<open>validatePassword\<close> rejects.
\<close>

theorem options_password_unvalidated:
  assumes "js_trim p = p" "6 \<le> length p"
  shows "wstore (settings_run w [OptionsTypePassword p, OptionsSavePassword]) PASSWORD_KEY = Some (SStr p)
         \<and> (validatePassword (Some p) = PwValid \<longleftrightarrow> all_digits p \<and> length p \<le> 9)"
  using assms by (auto simp: save_password_def key_unfold validatePassword_valid)

theorem options_password_unvalidated_witness:
  "wstore (settings_run locked_world [OptionsTypePassword (js ''hunter22''), OptionsSavePassword]) PASSWORD_KEY
     = Some (SStr (js ''hunter22''))
   \<and> validatePassword (Some (js ''hunter22'')) \<noteq> PwValid"
proof -
  have tr: "js_trim (js ''hunter22'') = js ''hunter22''" by (simp add: js_trim_def js_ws_def js_def)
  have len: "6 \<le> length (js ''hunter22'')" by (simp add: js_def)
  have nd: "\<not> all_digits (js ''hunter22'')" by (simp add: all_digits_def is_digit_def js_def)
  from options_password_unvalidated [OF tr len, of locked_world] nd show ?thesis by blast
qed

end
