(* ===== verification/Spec2Isabelle.thy ===== *)
theory Spec2Isabelle
  imports Content_Script Settings
begin

text \<open>
  \<^bold>\<open>FocusFlow: a verification development of src/content.js, src/popup.js and
  src/options.js.\<close>

  FocusFlow is a browser extension for YouTube. Its content script (src/content.js)
  classifies every video listing of the page as educational or not and hides the
  others while focus mode is on; on a watch page it pauses the video and mounts a
  blocking overlay. The popup (src/popup.js) turns focus mode on behind a numeric
  password and off again when the password is given back, and broadcasts
  \<open>focusflow:enabled\<close> / \<open>focusflow:disabled\<close> to the tabs; the options page
  (src/options.js) edits the allow-keywords, the channel whitelist and the password.
  The three parts share nothing but the \<open>chrome.storage.local\<close> area and the
  messages.

  \<^bold>\<open>Theories.\<close>
  \<^item> \<open>JS_Base\<close> (prelude): JavaScript strings as lists of UTF-16 code units,
    \<open>toLowerCase\<close> (ASCII and Latin-1 letters), \<open>trim\<close> (the ECMAScript white
    space), \<open>includes\<close> (\<open>str_includes\<close>, the \<open>sublist\<close> relation), the helper
    \<open>norm\<close>, code points, the values of the storage area (\<open>sval\<close>, \<open>store\<close>) and
    their truthiness, the messages, and the shared lemma collections.
  \<^item> \<open>Classifier\<close>: the built-in lists and \<open>isEducationalByText\<close> (content.js
    13--36, 57--76) with its three loops; its contract \<open>classify_spec\<close>. Claims
    C1--C8: veto precedence, the whitelist and keyword signals, equivalence with the
    contract (the length/emoji heuristic of line 73 is dead), the closed world,
    normalisation invariance, monotonicity, and the blank keyword that admits
    everything.
  \<^item> \<open>Dom\<close>: the part of the page the script reads and writes (nodes with identity,
    tag, descendant query answers, marker and \<open>display\<close>; the document's query
    answers, the video, the overlay flag) and the effects \<open>hideNode\<close>, \<open>showNode\<close>,
    \<open>showBlockedOverlay\<close>, \<open>removeBlockedOverlay\<close>, pausing, "Allow once", the
    restore path (content.js 105--152, 165--168), with their algebra.
  \<^item> \<open>Extractor\<close>: \<open>extractTitleAndChannel\<close> and the watch-page title and channel
    reads (78--103, 221--234). Claims C19--C21: the 200-unit fallback, the listing
    loop skips empty elements, the watch loop stops at the first existing one.
  \<^item> \<open>Config\<close>: the four keys and the configuration a pass reads (8--11, 155--176).
    Claim C22: the effective lists are never empty.
  \<^item> \<open>Reconciler\<close>: the pass \<open>processVideoItems\<close> after its storage read (154--245):
    item loop with short-form blocking, shelves, playlist entries, watch page.
    \<open>processVideoItems_on\<close> turns the three loops into one in-place map.
    Claims C9--C18: that refinement, the marker invariant, idempotence, restore
    completeness, the verdict on items, Shorts pages, watch pages and shelves.
  \<^item> \<open>Content_Script\<close>: the event loop (248--267): the debounced
    \<open>MutationObserver\<close>, the timer, the initial read, the messages, "Allow once",
    and the \<open>await\<close> that splits a pass into request, answer and resumption;
    \<open>cs_step\<close> is a step function over \<open>cs_event\<close>, \<open>cs_reach\<close> the inductive set of
    reachable states. Claims C32--C36: at most one timer pending, the marker invariant
    in every reachable state, the overlay/observer loop settles, "Allow once" is
    undone by the pass its own click triggers, a stale pass re-hides after a disable.
  \<^item> \<open>Popup\<close>: password validation and every handler of popup.js that changes state
    (23--168). Claims C29--C30: enabling needs a 6--9 digit password; unlocking needs
    the stored one.
  \<^item> \<open>Options\<close>: init, saving the lists and the password, reset (options.js 1--54).
    Claim C23: the round trip between \<open>join(", ")\<close> and the split/trim/filter
    parse.
  \<^item> \<open>Settings\<close>: the popup and the options page over one store, with the content
    script's \<open>read_config\<close> as the reader; \<open>settings_step\<close> runs one user action.
    Claims C24--C28 and C31: the content script's short-form key is never written,
    the options page unlocks focus mode without the old password, a reset with focus
    on locks it on, the store keeps its types and never holds a blank list entry,
    and the options page skips the popup's password validation.

  \<^bold>\<open>Bounds and fuel.\<close> Only \<open>settle\<close> (Content_Script) uses fuel: six internal
  steps are two passes of three steps each (timer, storage answer, resumption). The
  first pass may mount or remove the overlay and so fire the observer once more; the
  second changes nothing, by idempotence of the pass, so six steps suffice and C34
  proves that they do. All other loops are folds or structural recursion.

  \<^bold>\<open>Not modelled.\<close> The overlay's and the popup's presentation (HTML, CSS, button
  texts), \<open>chrome.runtime.openOptionsPage\<close> and the show/hide-password button (they
  change no state); case mapping beyond Latin-1; the dependence of \<open>innerText\<close> on
  visibility (a node's text is the same hidden or shown); nesting of listing elements
  (the page is a flat list of nodes); the number of overlay elements (a flag, so the
  existence guard of \<open>showBlockedOverlay\<close> has no observable effect); the 350 ms
  delay itself (only the order of events matters); the \<open>manifest\<close> and packaging.
  The environment (the site's mutations, the writes of the settings pages, the order
  of events) is left free, constrained only by \<open>env_ok\<close>.
\<close>

end
